theory Spec2Isabelle
  imports Complex_Main "HOL-Library.AList"
begin

section \<open>Assignment optimizer: data model\<close>

text \<open>
  \<^verbatim>\<open>TrainsetData\<close> (models/optimization.py), with the fields the optimizer reads.
  Python floats are modelled as reals and Python ints as integers.
\<close>

datatype trainset_status =
  AVAILABLE | IN_SERVICE | MAINTENANCE | OUT_OF_ORDER | CLEANING | DECOMMISSIONED

record trainset_data =
  trainset_id :: string
  status :: trainset_status
  fitness_valid :: bool
  has_high_priority_jobs :: bool
  current_mileage :: real
  branding_priority :: int

text \<open>
  \<^verbatim>\<open>request.parameters\<close> is a \<^verbatim>\<open>Dict[str, Any]\<close> read with \<^verbatim>\<open>.get(key, default)\<close>:
  one optional field for each key the drivers read.
\<close>

record algorithm_parameters =
  population_size :: "int option"
  generations :: "int option"
  mutation_rate :: "real option"
  initial_temperature :: "real option"
  cooling_rate :: "real option"
  min_temperature :: "real option"
  max_iterations :: "int option"

record optimization_request =
  optimization_id :: string
  algorithm :: "string option"
  max_trainsets :: int
  parameters :: algorithm_parameters

text \<open>\<^verbatim>\<open>Settings\<close> (utils/config.py): the one setting the optimizer's results depend on.\<close>

record settings =
  MAX_STABLING_POSITIONS :: int

definition default_settings :: settings where
  "default_settings = \<lparr>MAX_STABLING_POSITIONS = 30\<rparr>"

text \<open>
  \<^verbatim>\<open>SCHEDULING_CONSTRAINTS["mileage_balance"]["weight"]\<close> and
  \<^verbatim>\<open>SCHEDULING_CONSTRAINTS["branding_priority"]["weight"]\<close>.
\<close>

definition mileage_balance_weight :: real where
  "mileage_balance_weight = 0.6"

definition branding_priority_weight :: real where
  "branding_priority_weight = 0.3"

text \<open>
  An assignment is a Python \<^verbatim>\<open>Dict[str, int]\<close>: an association list in insertion order.
  \<^verbatim>\<open>d[k] = v\<close> is \<^const>\<open>AList.update\<close> (the value is replaced in place when the key is
  there, the pair is appended otherwise). Positions come from \<^verbatim>\<open>range(max_positions)\<close>
  and are natural numbers.
\<close>

type_synonym assignment = "(string \<times> nat) list"

text \<open>\<^verbatim>\<open>range(n)\<close> for a Python int: empty when \<open>n \<le> 0\<close>.\<close>

definition range_int :: "int \<Rightarrow> nat list" where
  "range_int n = [0..<nat n]"

text \<open>\<^verbatim>\<open>{ts.trainset_id: ts for ts in trainsets}\<close> and \<^verbatim>\<open>.get\<close>: a later trainset with the
  same id replaces an earlier one.\<close>

definition trainset_dict :: "trainset_data list \<Rightarrow> string \<Rightarrow> trainset_data option" where
  "trainset_dict trainsets = map_of (rev (map (\<lambda>ts. (trainset_id ts, ts)) trainsets))"

text \<open>\<^verbatim>\<open>np.mean\<close>, called on non-empty lists only (see \<open>score_of_pair\<close>).\<close>

definition mean :: "real list \<Rightarrow> real" where
  "mean xs = sum_list xs / real (length xs)"

section \<open>Assignment optimizer: the shared scoring function\<close>

text \<open>The body of the loop of \<^verbatim>\<open>_calculate_solution_score\<close> for a trainset that was found.\<close>

definition score_of_pair :: "trainset_data list \<Rightarrow> trainset_data \<Rightarrow> nat \<Rightarrow> real" where
  "score_of_pair trainsets trainset position =
     (let score0 = 100;
          score1 = (if \<not> fitness_valid trainset then score0 - 1000 else score0 + 50);
          score2 = (if has_high_priority_jobs trainset then score1 - 500 else score1);
          avg_mileage = mean (map current_mileage trainsets);
          mileage_diff = \<bar>current_mileage trainset - avg_mileage\<bar>;
          mileage_score = max 0 (100 - mileage_diff / 1000);
          score3 = score2 + mileage_score * mileage_balance_weight;
          branding_score = branding_priority trainset * 20;
          score4 = score3 + real_of_int branding_score * branding_priority_weight;
          position_score = max 0 (50 - int position * 2);
          score5 = score4 + real_of_int position_score
      in score5)"

text \<open>The loop over \<^verbatim>\<open>assignments.items()\<close>, with \<^verbatim>\<open>total_score\<close> as accumulator; an id
  that \<^verbatim>\<open>trainset_dict\<close> does not know is skipped (\<^verbatim>\<open>continue\<close>).\<close>

fun score_loop :: "real \<Rightarrow> assignment \<Rightarrow> trainset_data list \<Rightarrow> real" where
  "score_loop total_score [] trainsets = total_score"
| "score_loop total_score ((tid, position) # items) trainsets =
     (case trainset_dict trainsets tid of
        None \<Rightarrow> score_loop total_score items trainsets
      | Some trainset \<Rightarrow>
          score_loop (total_score + score_of_pair trainsets trainset position) items trainsets)"

definition calculate_solution_score :: "assignment \<Rightarrow> trainset_data list \<Rightarrow> real" where
  "calculate_solution_score assignments trainsets = score_loop 0 assignments trainsets"

text \<open>
  The per-pair contribution as section 4.1 of the specification words it: base 100, plus 50
  or minus 1000 for the fitness certificate, the weighted mileage-balance term, the
  weighted branding term, the position term.
\<close>

definition spec_pair_contribution :: "trainset_data list \<Rightarrow> trainset_data \<Rightarrow> nat \<Rightarrow> real" where
  "spec_pair_contribution trainsets trainset position =
     100 + (if fitness_valid trainset then 50 else - 1000)
     + max 0 (100 - \<bar>current_mileage trainset - mean (map current_mileage trainsets)\<bar> / 1000) * 0.6
     + real_of_int (branding_priority trainset * 20) * 0.3
     + real_of_int (max 0 (50 - 2 * int position))"

text \<open>The penalty the code applies in addition: 500 for a trainset with high-priority job cards.\<close>

definition job_card_penalty :: "trainset_data \<Rightarrow> real" where
  "job_card_penalty trainset = (if has_high_priority_jobs trainset then 500 else 0)"

section \<open>Assignment optimizer: the exact driver\<close>

text \<open>
  \<^verbatim>\<open>_solve_with_cp_sat\<close> builds a CP-SAT model and hands it to the OR-Tools solver. The
  model is kept as data. A Boolean variable is named by the trainset id and the position
  under which \<^verbatim>\<open>trainset_vars\<close> stores it; a linear expression is a list of terms
  (coefficient, variable), in the order in which Python's \<^verbatim>\<open>sum\<close> adds them.
\<close>

type_synonym cp_var = "string \<times> nat"

type_synonym linear_expr = "(int \<times> cp_var) list"

datatype cp_constraint =
  LessEq linear_expr int
| Equals linear_expr int

record cp_model =
  constraints :: "cp_constraint list"
  objective :: linear_expr

text \<open>\<^verbatim>\<open>int(x)\<close> on a float truncates towards zero.\<close>

definition py_int :: "real \<Rightarrow> int" where
  "py_int x = (if 0 \<le> x then \<lfloor>x\<rfloor> else \<lceil>x\<rceil>)"

text \<open>The coefficient of \<^verbatim>\<open>trainset_vars[trainset.trainset_id][j]\<close> in the objective.\<close>

definition objective_coefficient :: "trainset_data \<Rightarrow> nat \<Rightarrow> int" where
  "objective_coefficient trainset j =
     (let base_score0 = 100;
          base_score1 = (if fitness_valid trainset then base_score0 + 50 else base_score0);
          mileage_bonus = max 0 (50 - py_int (current_mileage trainset / 1000));
          base_score2 = base_score1 + mileage_bonus;
          branding_bonus = branding_priority trainset * 10;
          base_score3 = base_score2 + branding_bonus;
          position_bonus = max 0 (20 - int j);
          base_score4 = base_score3 + position_bonus
      in base_score4)"

definition max_positions_of :: "settings \<Rightarrow> optimization_request \<Rightarrow> int" where
  "max_positions_of cfg request = min (max_trainsets request) (MAX_STABLING_POSITIONS cfg)"

definition build_cp_model :: "settings \<Rightarrow> optimization_request \<Rightarrow> trainset_data list \<Rightarrow> cp_model" where
  "build_cp_model cfg request trainsets =
     (let positions = range_int (max_positions_of cfg request) in
      \<lparr>constraints =
         map (\<lambda>trainset. LessEq (map (\<lambda>j. (1, (trainset_id trainset, j))) positions) 1) trainsets
         @ map (\<lambda>j. LessEq (map (\<lambda>trainset. (1, (trainset_id trainset, j))) trainsets) 1) positions
         @ concat (map (\<lambda>trainset.
             if \<not> fitness_valid trainset
             then map (\<lambda>j. Equals [(1, (trainset_id trainset, j))] 0) positions else []) trainsets)
         @ concat (map (\<lambda>trainset.
             if has_high_priority_jobs trainset
             then map (\<lambda>j. Equals [(1, (trainset_id trainset, j))] 0) positions else []) trainsets),
       objective =
         concat (map (\<lambda>trainset.
           map (\<lambda>j. (objective_coefficient trainset j, (trainset_id trainset, j))) positions)
           trainsets)\<rparr>)"

text \<open>
  The solver is outside the repository. Its answer is a parameter of the driver: a status
  and the value of every variable. \<open>cp_sat_answer_ok\<close> is what OR-Tools promises about the
  answer: with status FEASIBLE or OPTIMAL the values satisfy every constraint, and with
  OPTIMAL no valuation that satisfies them has a larger objective.
\<close>

datatype cp_solver_status = UNKNOWN | MODEL_INVALID | FEASIBLE | INFEASIBLE | OPTIMAL

record cp_solver_answer =
  solver_status :: cp_solver_status
  solver_value :: "cp_var \<Rightarrow> bool"

definition eval_linear_expr :: "(cp_var \<Rightarrow> bool) \<Rightarrow> linear_expr \<Rightarrow> int" where
  "eval_linear_expr v e = (\<Sum>(c, x) \<leftarrow> e. if v x then c else 0)"

fun constraint_holds :: "(cp_var \<Rightarrow> bool) \<Rightarrow> cp_constraint \<Rightarrow> bool" where
  "constraint_holds v (LessEq e b) = (eval_linear_expr v e \<le> b)"
| "constraint_holds v (Equals e b) = (eval_linear_expr v e = b)"

definition satisfies :: "(cp_var \<Rightarrow> bool) \<Rightarrow> cp_model \<Rightarrow> bool" where
  "satisfies v m = list_all (constraint_holds v) (constraints m)"

definition objective_value :: "cp_model \<Rightarrow> (cp_var \<Rightarrow> bool) \<Rightarrow> int" where
  "objective_value m v = eval_linear_expr v (objective m)"

definition cp_sat_answer_ok :: "cp_model \<Rightarrow> cp_solver_answer \<Rightarrow> bool" where
  "cp_sat_answer_ok m answer =
     ((solver_status answer \<in> {FEASIBLE, OPTIMAL} \<longrightarrow> satisfies (solver_value answer) m) \<and>
      (solver_status answer = OPTIMAL \<longrightarrow>
         (\<forall>v. satisfies v m \<longrightarrow> objective_value m v \<le> objective_value m (solver_value answer))))"

text \<open>\<^verbatim>\<open>OptimizationSolution\<close>. The reasoning strings and the execution time are left out:
  no result field that the properties below speak of is computed from them.\<close>

datatype violations =
  NoViolations
| SolverStatusViolation cp_solver_status
| ErrorViolation string

record optimization_solution =
  solution_assignments :: assignment
  solution_score :: real
  solution_violations :: violations
  algorithm_used :: string

text \<open>The extraction loop: for each trainset, the first position whose variable is 1.\<close>

definition extract_assignments ::
  "(cp_var \<Rightarrow> bool) \<Rightarrow> nat list \<Rightarrow> trainset_data list \<Rightarrow> assignment" where
  "extract_assignments v positions trainsets =
     foldl (\<lambda>assignments trainset.
        case find (\<lambda>j. v (trainset_id trainset, j)) positions of
          None \<Rightarrow> assignments
        | Some j \<Rightarrow> AList.update (trainset_id trainset) j assignments) [] trainsets"

definition solve_with_cp_sat ::
  "settings \<Rightarrow> cp_solver_answer \<Rightarrow> optimization_request \<Rightarrow> trainset_data list
     \<Rightarrow> optimization_solution" where
  "solve_with_cp_sat cfg answer request trainsets =
     (let positions = range_int (max_positions_of cfg request) in
      if solver_status answer = OPTIMAL \<or> solver_status answer = FEASIBLE then
        let assignments = extract_assignments (solver_value answer) positions trainsets;
            total_score = calculate_solution_score assignments trainsets
        in \<lparr>solution_assignments = assignments, solution_score = total_score,
            solution_violations = NoViolations,
            algorithm_used = ''constraint_programming''\<rparr>
      else
        \<lparr>solution_assignments = [], solution_score = 0,
         solution_violations = SolverStatusViolation (solver_status answer),
         algorithm_used = ''constraint_programming''\<rparr>)"

section \<open>Assignment optimizer: exceptions and random numbers\<close>

text \<open>The exceptions that the optimizer's code can raise.\<close>

datatype py_error =
  ValueError string
| UnboundLocalError string  \<comment> \<open>the name of the local variable\<close>
| ZeroDivisionError
| IndexError
| KeyError string

text \<open>
  The two metaheuristic drivers draw from numpy's global random generator. The generator
  is a parameter: the stream of raw numbers it will produce, each draw taking the next
  one. \<^verbatim>\<open>np.random.random()\<close> is a 53-bit fraction; \<^verbatim>\<open>np.random.choice(xs)\<close> picks an
  index; \<^verbatim>\<open>np.random.randint(0, high)\<close> raises \<^verbatim>\<open>ValueError\<close> unless \<open>0 < high\<close>.
\<close>

type_synonym rng = "nat \<Rightarrow> nat"

definition rng_draw :: "rng \<Rightarrow> nat \<times> rng" where
  "rng_draw g = (g 0, \<lambda>n. g (Suc n))"

definition random_random :: "rng \<Rightarrow> real \<times> rng" where
  "random_random g =
     (let (r, g') = rng_draw g in (real (r mod 2 ^ 53) / 2 ^ 53, g'))"

text \<open>
  \<^verbatim>\<open>np.random.choice\<close> raises on an empty sequence. Every call of the drivers stands
  under a test that its sequence is not empty, and the model keeps each of these tests.
\<close>

definition random_choice :: "'a list \<Rightarrow> rng \<Rightarrow> 'a \<times> rng" where
  "random_choice xs g =
     (let (r, g') = rng_draw g in (xs ! (r mod length xs), g'))"

text \<open>\<^verbatim>\<open>np.random.choice(xs, 2, replace=False)\<close>: two different places of \<open>xs\<close>.\<close>

definition random_choice2 :: "'a list \<Rightarrow> rng \<Rightarrow> ('a \<times> 'a) \<times> rng" where
  "random_choice2 xs g =
     (let (r1, g1) = rng_draw g;
          (r2, g2) = rng_draw g1;
          i = r1 mod length xs;
          others = take i xs @ drop (Suc i) xs
      in ((xs ! i, others ! (r2 mod length others)), g2))"

definition random_randint :: "int \<Rightarrow> rng \<Rightarrow> py_error + (nat \<times> rng)" where
  "random_randint high g =
     (if high \<le> 0 then Inl (ValueError ''low >= high'')
      else let (r, g') = rng_draw g in Inr (r mod nat high, g'))"

section \<open>Assignment optimizer: the random initial assignment\<close>

text \<open>
  The loop that both metaheuristic drivers start from: each trainset with a valid fitness
  certificate and no high-priority job card is, with probability 0.7, put on a position
  drawn from those still free. The random number is drawn only when the trainset is
  eligible and a position is free (\<^verbatim>\<open>and\<close> evaluates left to right).
\<close>

fun initial_assignment_loop ::
  "trainset_data list \<Rightarrow> nat list \<Rightarrow> assignment \<Rightarrow> rng \<Rightarrow> assignment \<times> rng" where
  "initial_assignment_loop [] available_positions assignment g = (assignment, g)"
| "initial_assignment_loop (trainset # trainsets) available_positions assignment g =
     (if available_positions \<noteq> [] \<and> fitness_valid trainset
         \<and> \<not> has_high_priority_jobs trainset then
        let (u, g1) = random_random g in
        if u > 0.3 then
          let (pos, g2) = random_choice available_positions g1 in
          initial_assignment_loop trainsets (remove1 pos available_positions)
            (AList.update (trainset_id trainset) pos assignment) g2
        else initial_assignment_loop trainsets available_positions assignment g1
      else initial_assignment_loop trainsets available_positions assignment g)"

definition random_assignment ::
  "int \<Rightarrow> trainset_data list \<Rightarrow> rng \<Rightarrow> assignment \<times> rng" where
  "random_assignment max_positions trainsets g =
     initial_assignment_loop trainsets (range_int max_positions) [] g"

section \<open>Assignment optimizer: the genetic driver\<close>

text \<open>\<^verbatim>\<open>for _ in range(population_size)\<close>: the initial population.\<close>

fun initial_population ::
  "nat \<Rightarrow> int \<Rightarrow> trainset_data list \<Rightarrow> rng \<Rightarrow> assignment list \<times> rng" where
  "initial_population 0 max_positions trainsets g = ([], g)"
| "initial_population (Suc n) max_positions trainsets g =
     (let (assignment, g1) = random_assignment max_positions trainsets g;
          (population, g2) = initial_population n max_positions trainsets g1
      in (assignment # population, g2))"

text \<open>
  The best solution so far with its score; \<open>None\<close> stands for \<^verbatim>\<open>best_solution = None\<close>
  and \<^verbatim>\<open>best_score = -inf\<close>, which every score exceeds.
\<close>

type_synonym best_so_far = "(assignment \<times> real) option"

definition improves :: "real \<Rightarrow> best_so_far \<Rightarrow> bool" where
  "improves score best = (case best of None \<Rightarrow> True | Some (_, best_score) \<Rightarrow> score > best_score)"

fun evaluate_population ::
  "trainset_data list \<Rightarrow> assignment list \<Rightarrow> (assignment \<times> real) list \<Rightarrow> best_so_far
     \<Rightarrow> (assignment \<times> real) list \<times> best_so_far" where
  "evaluate_population trainsets [] scored_population best = (scored_population, best)"
| "evaluate_population trainsets (assignment # population) scored_population best =
     (let score = calculate_solution_score assignment trainsets
      in evaluate_population trainsets population (scored_population @ [(assignment, score)])
           (if improves score best then Some (assignment, score) else best))"

text \<open>\<^verbatim>\<open>xs[:k]\<close> for a Python int \<open>k\<close>: a negative \<open>k\<close> counts from the end.\<close>

definition py_slice_to :: "int \<Rightarrow> 'a list \<Rightarrow> 'a list" where
  "py_slice_to k xs = (if 0 \<le> k then take (nat k) xs else take (length xs - nat (- k)) xs)"

text \<open>
  The crossover loop over \<^verbatim>\<open>all_trainsets\<close>, a Python set of strings. The order in which
  Python iterates over it is a parameter of the driver (\<open>set_order\<close>, applied to the
  keys of the two parents without repetition).
\<close>

definition take_position ::
  "string \<Rightarrow> nat \<Rightarrow> assignment \<times> nat set \<Rightarrow> assignment \<times> nat set" where
  "take_position tid p st =
     (let (child, used_positions) = st in
      if p \<notin> used_positions
      then (AList.update tid p child, insert p used_positions)
      else (child, used_positions))"

definition crossover_step ::
  "assignment \<Rightarrow> assignment \<Rightarrow> string \<Rightarrow> (assignment \<times> nat set) \<times> rng
     \<Rightarrow> (assignment \<times> nat set) \<times> rng" where
  "crossover_step parent1 parent2 tid st =
     (let (child_used, g) = st;
          (u, g1) = random_random g
      in if u < 0.5 \<and> map_of parent1 tid \<noteq> None then
           (case map_of parent1 tid of
              None \<Rightarrow> (child_used, g1)
            | Some p \<Rightarrow> (take_position tid p child_used, g1))
         else
           (case map_of parent2 tid of
              None \<Rightarrow> (child_used, g1)
            | Some p \<Rightarrow> (take_position tid p child_used, g1)))"

fun crossover_loop ::
  "string list \<Rightarrow> assignment \<Rightarrow> assignment \<Rightarrow> (assignment \<times> nat set) \<times> rng
     \<Rightarrow> (assignment \<times> nat set) \<times> rng" where
  "crossover_loop [] parent1 parent2 st = st"
| "crossover_loop (tid # tids) parent1 parent2 st =
     crossover_loop tids parent1 parent2 (crossover_step parent1 parent2 tid st)"

text \<open>The mutation step on a finished child.\<close>

definition mutate ::
  "real \<Rightarrow> int \<Rightarrow> assignment \<Rightarrow> nat set \<Rightarrow> rng \<Rightarrow> assignment \<times> rng" where
  "mutate rate max_positions child used_positions g =
     (let (u, g1) = random_random g in
      if u < rate then
        if child \<noteq> [] then
          let (trainset_to_mutate, g2) = random_choice (map fst child) g1;
              available_pos = filter (\<lambda>p. p \<notin> used_positions) (range_int max_positions)
          in if available_pos \<noteq> [] then
               let (new_pos, g3) = random_choice available_pos g2
               in (AList.update trainset_to_mutate new_pos child, g3)
             else (child, g2)
        else (child, g1)
      else (child, g1))"

definition make_child ::
  "(string list \<Rightarrow> string list) \<Rightarrow> real \<Rightarrow> int \<Rightarrow> assignment \<Rightarrow> assignment \<Rightarrow> rng
     \<Rightarrow> assignment \<times> rng" where
  "make_child set_order rate max_positions parent1 parent2 g =
     (let all_trainsets = set_order (remdups (map fst parent1 @ map fst parent2));
          ((child, used_positions), g1) =
            crossover_loop all_trainsets parent1 parent2 (([], {}), g)
      in mutate rate max_positions child used_positions g1)"

text \<open>
  \<^verbatim>\<open>while len(new_population) < population_size\<close>: each round appends one child
  (\<open>pop_size\<close> is \<^verbatim>\<open>population_size\<close>). The two
  parents are \<^verbatim>\<open>scored_population[np.random.randint(0, elite_size * 2)][0]\<close>.
\<close>

function offspring_loop ::
  "(string list \<Rightarrow> string list) \<Rightarrow> real \<Rightarrow> int \<Rightarrow> int \<Rightarrow> int
     \<Rightarrow> (assignment \<times> real) list \<Rightarrow> assignment list \<Rightarrow> rng
     \<Rightarrow> py_error + (assignment list \<times> rng)" where
  "offspring_loop set_order rate max_positions pop_size elite_size scored_population
       new_population g =
     (if int (length new_population) < pop_size then
        (case random_randint (elite_size * 2) g of
           Inl e \<Rightarrow> Inl e
         | Inr (i1, g1) \<Rightarrow>
             if i1 < length scored_population then
               (case random_randint (elite_size * 2) g1 of
                  Inl e \<Rightarrow> Inl e
                | Inr (i2, g2) \<Rightarrow>
                    if i2 < length scored_population then
                      let parent1 = fst (scored_population ! i1);
                          parent2 = fst (scored_population ! i2);
                          (child, g3) =
                            make_child set_order rate max_positions parent1 parent2 g2
                      in offspring_loop set_order rate max_positions pop_size
                           elite_size scored_population (new_population @ [child]) g3
                    else Inl IndexError)
             else Inl IndexError)
      else Inr (new_population, g))"
  by pat_completeness auto
termination
  by (relation "measure (\<lambda>(set_order, rate, max_positions, pop_size, elite_size,
        scored_population, new_population, g). nat (pop_size - int (length new_population)))")
     auto

declare offspring_loop.simps [simp del]

text \<open>
  \<^verbatim>\<open>for generation in range(generations)\<close>. \<^verbatim>\<open>sort(key=..., reverse=True)\<close> is a stable sort
  by descending score.
\<close>

fun generation_loop ::
  "nat \<Rightarrow> (string list \<Rightarrow> string list) \<Rightarrow> real \<Rightarrow> int \<Rightarrow> int \<Rightarrow> trainset_data list
     \<Rightarrow> assignment list \<Rightarrow> best_so_far \<Rightarrow> rng \<Rightarrow> py_error + best_so_far" where
  "generation_loop 0 set_order rate max_positions pop_size trainsets population best g =
     Inr best"
| "generation_loop (Suc n) set_order rate max_positions pop_size trainsets population
       best g =
     (let (scored_population, best') = evaluate_population trainsets population [] best;
          sorted_population = sort_key (\<lambda>x. - snd x) scored_population;
          elite_size = pop_size div 10;
          new_population = map fst (py_slice_to elite_size sorted_population)
      in case offspring_loop set_order rate max_positions pop_size elite_size
                sorted_population new_population g of
           Inl e \<Rightarrow> Inl e
         | Inr (population', g') \<Rightarrow>
             generation_loop n set_order rate max_positions pop_size trainsets
               population' best' g')"

text \<open>\<^verbatim>\<open>request.parameters.get(key, d)\<close>\<close>

definition get_or :: "'a option \<Rightarrow> 'a \<Rightarrow> 'a" where
  "get_or v d = (case v of None \<Rightarrow> d | Some x \<Rightarrow> x)"

definition solve_with_genetic_algorithm ::
  "settings \<Rightarrow> (string list \<Rightarrow> string list) \<Rightarrow> rng \<Rightarrow> optimization_request
     \<Rightarrow> trainset_data list \<Rightarrow> py_error + optimization_solution" where
  "solve_with_genetic_algorithm cfg set_order g request trainsets =
     (let pop_size = get_or (population_size (parameters request)) 100;
          gens = get_or (generations (parameters request)) 1000;
          rate = get_or (mutation_rate (parameters request)) 0.1;
          max_positions = max_positions_of cfg request;
          (population, g1) = initial_population (nat pop_size) max_positions trainsets g
      in case generation_loop (nat gens) set_order rate max_positions pop_size trainsets
                population None g1 of
           Inl e \<Rightarrow> Inl e
         | Inr best \<Rightarrow>
             (case best of
                Some (best_solution, best_score) \<Rightarrow>
                  if best_solution \<noteq> [] then
                    Inr \<lparr>solution_assignments = best_solution, solution_score = best_score,
                         solution_violations = NoViolations,
                         algorithm_used = ''genetic_algorithm''\<rparr>
                  else
                    Inr \<lparr>solution_assignments = [], solution_score = 0,
                         solution_violations = ErrorViolation ''No solution found'',
                         algorithm_used = ''genetic_algorithm''\<rparr>
              | None \<Rightarrow>
                  Inr \<lparr>solution_assignments = [], solution_score = 0,
                       solution_violations = ErrorViolation ''No solution found'',
                       algorithm_used = ''genetic_algorithm''\<rparr>))"

section \<open>Assignment optimizer: the simulated-annealing driver\<close>

text \<open>
  The neighbour of the current solution. \<^verbatim>\<open>'add'\<close> and \<^verbatim>\<open>'remove'\<close> have no branch in
  the code and leave the copy as it is, as does \<^verbatim>\<open>'swap'\<close> on fewer than two trainsets.
  \<^verbatim>\<open>d[k]\<close> raises \<^verbatim>\<open>KeyError\<close> for a missing key.
\<close>

definition dict_get :: "assignment \<Rightarrow> string \<Rightarrow> py_error + nat" where
  "dict_get d k = (case map_of d k of None \<Rightarrow> Inl (KeyError k) | Some v \<Rightarrow> Inr v)"

definition swap_neighbor :: "assignment \<Rightarrow> rng \<Rightarrow> py_error + (assignment \<times> rng)" where
  "swap_neighbor neighbor_solution g =
     (let ((t1, t2), g1) = random_choice2 (map fst neighbor_solution) g in
      case dict_get neighbor_solution t1 of
        Inl e \<Rightarrow> Inl e
      | Inr pos1 \<Rightarrow>
          (case dict_get neighbor_solution t2 of
             Inl e \<Rightarrow> Inl e
           | Inr pos2 \<Rightarrow>
               Inr (AList.update t2 pos1 (AList.update t1 pos2 neighbor_solution), g1)))"

definition move_neighbor :: "int \<Rightarrow> assignment \<Rightarrow> rng \<Rightarrow> py_error + (assignment \<times> rng)" where
  "move_neighbor max_positions neighbor_solution g =
     (let (trainset_to_move, g1) = random_choice (map fst neighbor_solution) g in
      case dict_get neighbor_solution trainset_to_move of
        Inl e \<Rightarrow> Inl e
      | Inr old_pos \<Rightarrow>
          let used_positions = set (map snd neighbor_solution);
              available_pos =
                filter (\<lambda>p. p \<notin> used_positions \<or> p = old_pos) (range_int max_positions)
          in if length available_pos > 1 then
               let (new_pos, g2) = random_choice (filter (\<lambda>p. p \<noteq> old_pos) available_pos) g1
               in Inr (AList.update trainset_to_move new_pos neighbor_solution, g2)
             else Inr (neighbor_solution, g1))"

definition neighbor_of :: "int \<Rightarrow> assignment \<Rightarrow> rng \<Rightarrow> py_error + (assignment \<times> rng)" where
  "neighbor_of max_positions current g =
     (if current \<noteq> [] then
        let (modification_type, g1) = random_choice [''swap'', ''move'', ''add'', ''remove''] g in
        if modification_type = ''swap'' \<and> length current \<ge> 2 then swap_neighbor current g1
        else if modification_type = ''move'' then move_neighbor max_positions current g1
        else Inr (current, g1)
      else Inr (current, g))"

text \<open>
  The acceptance test \<^verbatim>\<open>delta > 0 or np.random.random() < np.exp(delta / temperature)\<close>.
  No number is drawn when \<open>delta > 0\<close>. With a temperature of zero the division has no
  real value: on a numpy float it gives an infinity or a NaN, under which the comparison
  is false; on a Python float it raises \<^verbatim>\<open>ZeroDivisionError\<close>. A score is a numpy float
  as soon as one assigned pair has a positive mileage-balance term (\<^verbatim>\<open>max(0, x)\<close> returns
  the int 0 otherwise), and the difference of two scores is one if either score is.
\<close>

definition score_is_numpy :: "assignment \<Rightarrow> trainset_data list \<Rightarrow> bool" where
  "score_is_numpy assignments trainsets =
     list_ex (\<lambda>(tid, position).
        case trainset_dict trainsets tid of
          None \<Rightarrow> False
        | Some trainset \<Rightarrow>
            100 - \<bar>current_mileage trainset - mean (map current_mileage trainsets)\<bar> / 1000 > 0)
       assignments"

definition accept_neighbor ::
  "bool \<Rightarrow> real \<Rightarrow> real \<Rightarrow> rng \<Rightarrow> py_error + (bool \<times> rng)" where
  "accept_neighbor numpy_delta delta temperature g =
     (if delta > 0 then Inr (True, g)
      else
        let (u, g1) = random_random g in
        if temperature = 0 then
          (if numpy_delta then Inr (False, g1) else Inl ZeroDivisionError)
        else Inr (u < exp (delta / temperature), g1))"

record annealing_state =
  current_solution :: assignment
  current_score :: real
  best_solution :: assignment
  best_score :: real
  temperature :: real
  generator :: rng

text \<open>One round of the \<^verbatim>\<open>for iteration in range(max_iterations)\<close> loop, after the
  \<^verbatim>\<open>break\<close> test.\<close>

definition annealing_step ::
  "int \<Rightarrow> real \<Rightarrow> trainset_data list \<Rightarrow> annealing_state \<Rightarrow> py_error + annealing_state" where
  "annealing_step max_positions cooling trainsets st =
     (case neighbor_of max_positions (current_solution st) (generator st) of
        Inl e \<Rightarrow> Inl e
      | Inr (neighbor_solution, g1) \<Rightarrow>
          let neighbor_score = calculate_solution_score neighbor_solution trainsets;
              delta = neighbor_score - current_score st;
              numpy_delta = (score_is_numpy neighbor_solution trainsets
                             \<or> score_is_numpy (current_solution st) trainsets)
          in case accept_neighbor numpy_delta delta (temperature st) g1 of
               Inl e \<Rightarrow> Inl e
             | Inr (accepted, g2) \<Rightarrow>
                 let st1 =
                       (if accepted then
                          let st' = st\<lparr>current_solution := neighbor_solution,
                                      current_score := neighbor_score\<rparr>
                          in if neighbor_score > best_score st
                             then st'\<lparr>best_solution := neighbor_solution,
                                     best_score := neighbor_score\<rparr>
                             else st'
                        else st)
                 in Inr (st1\<lparr>temperature := temperature st * cooling, generator := g2\<rparr>))"

fun annealing_loop ::
  "nat \<Rightarrow> int \<Rightarrow> real \<Rightarrow> real \<Rightarrow> trainset_data list \<Rightarrow> annealing_state
     \<Rightarrow> py_error + annealing_state" where
  "annealing_loop 0 max_positions cooling min_temp trainsets st = Inr st"
| "annealing_loop (Suc n) max_positions cooling min_temp trainsets st =
     (if temperature st < min_temp then Inr st
      else
        case annealing_step max_positions cooling trainsets st of
          Inl e \<Rightarrow> Inl e
        | Inr st' \<Rightarrow> annealing_loop n max_positions cooling min_temp trainsets st')"

definition solve_with_simulated_annealing ::
  "settings \<Rightarrow> rng \<Rightarrow> optimization_request \<Rightarrow> trainset_data list
     \<Rightarrow> py_error + optimization_solution" where
  "solve_with_simulated_annealing cfg g request trainsets =
     (let max_positions = max_positions_of cfg request;
          (initial_solution, g1) = random_assignment max_positions trainsets g;
          initial_score = calculate_solution_score initial_solution trainsets;
          initial_temp = get_or (initial_temperature (parameters request)) 100.0;
          cooling = get_or (cooling_rate (parameters request)) 0.95;
          min_temp = get_or (min_temperature (parameters request)) 0.01;
          max_iter = get_or (max_iterations (parameters request)) 10000
      in case annealing_loop (nat max_iter) max_positions cooling min_temp trainsets
                \<lparr>current_solution = initial_solution, current_score = initial_score,
                 best_solution = initial_solution, best_score = initial_score,
                 temperature = initial_temp, generator = g1\<rparr> of
           Inl e \<Rightarrow> Inl e
         | Inr st \<Rightarrow>
             Inr \<lparr>solution_assignments = best_solution st, solution_score = best_score st,
                  solution_violations = NoViolations,
                  algorithm_used = ''simulated_annealing''\<rparr>)"

section \<open>Assignment optimizer: the entry point\<close>

text \<open>\<^verbatim>\<open>str(n)\<close> for a non-negative int, as an f-string formats it.\<close>

fun str_nat :: "nat \<Rightarrow> string" where
  "str_nat n =
     (if n < 10 then [''0123456789'' ! n]
      else str_nat (n div 10) @ [''0123456789'' ! (n mod 10)])"

declare str_nat.simps [simp del]

text \<open>\<^verbatim>\<open>str(n)\<close> for a Python int.\<close>

definition str_int :: "int \<Rightarrow> string" where
  "str_int n = (if n < 0 then ''-'' @ str_nat (nat (- n)) else str_nat (nat n))"

fun validate_trainsets :: "trainset_data list \<Rightarrow> py_error + unit" where
  "validate_trainsets [] = Inr ()"
| "validate_trainsets (trainset # trainsets) =
     (if trainset_id trainset = [] then Inl (ValueError ''trainset_id cannot be empty'')
      else if current_mileage trainset < 0
      then Inl (ValueError (''Invalid mileage for trainset '' @ trainset_id trainset))
      else validate_trainsets trainsets)"

definition validate_input ::
  "settings \<Rightarrow> optimization_request \<Rightarrow> trainset_data list \<Rightarrow> py_error + unit" where
  "validate_input cfg request trainsets =
     (if trainsets = [] then Inl (ValueError ''No trainsets provided for optimization'')
      else if max_trainsets request \<le> 0 then Inl (ValueError ''max_trainsets must be positive'')
      else if max_trainsets request > MAX_STABLING_POSITIONS cfg
      then Inl (ValueError (''max_trainsets cannot exceed ''
                             @ str_int (MAX_STABLING_POSITIONS cfg)))
      else validate_trainsets trainsets)"

text \<open>
  What lies outside the repository and decides a run: the answer of the CP-SAT solver to
  the model it is given, the random stream, and the iteration order of Python sets.
\<close>

record environment =
  cp_sat_solver :: "cp_model \<Rightarrow> cp_solver_answer"
  random_stream :: rng
  set_iteration_order :: "string list \<Rightarrow> string list"

datatype optimization_status = PENDING | RUNNING | COMPLETED | FAILED | CANCELLED

text \<open>
  \<^verbatim>\<open>OptimizationResult\<close>, with the fields that \<^verbatim>\<open>optimize_schedule\<close> computes from the
  solution; of the explanation only the error text of the failure branch is kept. The
  pydantic constructor is taken to accept the values it is given.
\<close>

record optimization_result =
  result_optimization_id :: string
  result_algorithm :: string
  result_score :: real
  result_assignments :: assignment
  result_violations :: violations
  result_error :: "string option"
  result_status :: optimization_status

definition str_error :: "py_error \<Rightarrow> string" where
  "str_error e =
     (case e of
        ValueError msg \<Rightarrow> msg
      | UnboundLocalError msg \<Rightarrow> msg
      | ZeroDivisionError \<Rightarrow> ''float division by zero''
      | IndexError \<Rightarrow> ''list index out of range''
      | KeyError k \<Rightarrow> k)"

text \<open>The body of the \<^verbatim>\<open>try\<close> block after the validation: the choice of the driver.\<close>

definition run_algorithm ::
  "settings \<Rightarrow> environment \<Rightarrow> string \<Rightarrow> optimization_request \<Rightarrow> trainset_data list
     \<Rightarrow> py_error + optimization_solution" where
  "run_algorithm cfg env alg request trainsets =
     (if alg = ''constraint_programming'' then
        Inr (solve_with_cp_sat cfg (cp_sat_solver env (build_cp_model cfg request trainsets))
               request trainsets)
      else if alg = ''genetic_algorithm'' then
        solve_with_genetic_algorithm cfg (set_iteration_order env) (random_stream env)
          request trainsets
      else if alg = ''simulated_annealing'' then
        solve_with_simulated_annealing cfg (random_stream env) request trainsets
      else
        Inr (solve_with_cp_sat cfg (cp_sat_solver env (build_cp_model cfg request trainsets))
               request trainsets))"

text \<open>
  \<^verbatim>\<open>optimize_schedule\<close>. The \<^verbatim>\<open>except\<close> clause builds its result from the local variable
  \<^verbatim>\<open>algorithm\<close>, which is assigned after \<^verbatim>\<open>_validate_input\<close> has returned: when the
  validation raises, reading it raises \<^verbatim>\<open>UnboundLocalError\<close> out of the handler, and
  \<^verbatim>\<open>optimize_schedule\<close> returns no result.
\<close>

definition optimize_schedule ::
  "settings \<Rightarrow> environment \<Rightarrow> optimization_request \<Rightarrow> trainset_data list
     \<Rightarrow> py_error + optimization_result" where
  "optimize_schedule cfg env request trainsets =
     (case validate_input cfg request trainsets of
        Inl e \<Rightarrow>
          Inl (UnboundLocalError ''algorithm'')
      | Inr _ \<Rightarrow>
          let alg = (case algorithm request of
                       None \<Rightarrow> ''constraint_programming''
                     | Some a \<Rightarrow> if a = [] then ''constraint_programming'' else a)
          in case run_algorithm cfg env alg request trainsets of
               Inr solution \<Rightarrow>
                 Inr \<lparr>result_optimization_id = optimization_id request,
                      result_algorithm = alg,
                      result_score = solution_score solution,
                      result_assignments = solution_assignments solution,
                      result_violations = solution_violations solution,
                      result_error = None,
                      result_status =
                        (if solution_score solution > 0 then COMPLETED else FAILED)\<rparr>
             | Inl e \<Rightarrow>
                 Inr \<lparr>result_optimization_id = optimization_id request,
                      result_algorithm = alg,
                      result_score = 0,
                      result_assignments = [],
                      result_violations = NoViolations,
                      result_error = Some (str_error e),
                      result_status = FAILED\<rparr>)"

section \<open>Decision engine: data model\<close>

text \<open>
  decision_engine.py. A \<^verbatim>\<open>datetime\<close> is the number of seconds since a fixed midnight
  (local time), a \<^verbatim>\<open>date\<close> the number of days since that day; \<^verbatim>\<open>timedelta\<close>s are seconds.
\<close>

type_synonym datetime = int

type_synonym date = int

definition date_of :: "datetime \<Rightarrow> date" where
  "date_of t = t div 86400"

definition hour_of :: "datetime \<Rightarrow> int" where
  "hour_of t = (t div 3600) mod 24"

definition minute_of :: "datetime \<Rightarrow> int" where
  "minute_of t = (t div 60) mod 60"

definition timedelta_minutes :: "int \<Rightarrow> int" where
  "timedelta_minutes n = 60 * n"

definition timedelta_hours :: "int \<Rightarrow> int" where
  "timedelta_hours n = 3600 * n"

text \<open>
  The fleet snapshot is a list of dicts. A row holds the keys the engine reads:
  \<^verbatim>\<open>trainset_id\<close> and \<^verbatim>\<open>status\<close> (read with \<^verbatim>\<open>[]\<close>), and the optional dates (read with
  \<^verbatim>\<open>.get\<close>; a date object is always true in a Python condition).
\<close>

record trainset_row =
  row_trainset_id :: string
  row_status :: string
  row_fitness_expiry_date :: "date option"
  row_next_maintenance_date :: "date option"
  row_last_cleaning_date :: "datetime option"

datatype decision_type =
  SCHEDULE_OPTIMIZATION | MAINTENANCE_SCHEDULING | EMERGENCY_RESPONSE
| RESOURCE_ALLOCATION | ROUTE_ADJUSTMENT | CLEANING_SCHEDULE

datatype decision_urgency = LOW | MEDIUM | HIGH | CRITICAL

text \<open>The \<^verbatim>\<open>action_plan\<close> dict, one constructor for each value of its \<^verbatim>\<open>"action"\<close> key.\<close>

datatype action_plan =
  Optimize_schedule string int string
    \<comment> \<open>algorithm, max_trainsets, parameters.focus\<close>
| Schedule_maintenance string "datetime \<times> datetime" string
    \<comment> \<open>trainset_id, maintenance_window (start, end), priority\<close>
| Emergency_deactivate string string bool
    \<comment> \<open>trainset_id, reason, immediate_replacement\<close>
| Schedule_cleaning nat string int string
    \<comment> \<open>trainset_count, selection_criteria, duration_hours, completion_time\<close>

text \<open>
  \<^verbatim>\<open>AIDecision\<close>, without the rationale text. \<open>approved\<close> is the attribute that
  \<^verbatim>\<open>_is_decision_ready_for_execution\<close> looks for with \<^verbatim>\<open>hasattr\<close>: \<open>None\<close> when it was
  never set.
\<close>

record ai_decision =
  decision_id :: string
  decision_kind :: decision_type
  urgency :: decision_urgency
  timestamp :: datetime
  confidence :: real
  plan :: action_plan
  affected_trainsets :: "string list"
  estimated_impact :: "(string \<times> real) list"
  requires_human_approval :: bool
  execution_deadline :: "datetime option"
  approved :: "bool option"

text \<open>
  The engine's state: the counter used in decision ids, the \<^verbatim>\<open>active_decisions\<close> dict, the
  history, and the outcome records handed to the feedback sink (decision id and success).
\<close>

record engine_state =
  decision_counter :: nat
  active_decisions :: "(string \<times> ai_decision) list"
  decision_history :: "ai_decision list"
  recorded_outcomes :: "(string \<times> bool) list"

definition engine_confidence_threshold :: real where
  "engine_confidence_threshold = 0.75"

definition max_autonomous_trainsets :: int where
  "max_autonomous_trainsets = 15"

section \<open>Decision engine: the rule evaluators\<close>

text \<open>
  \<^verbatim>\<open>_evaluate_schedule_optimization\<close>. \<open>predicted\<close> is what the feedback loop's
  \<^verbatim>\<open>predict_schedule_success\<close> returns under \<^verbatim>\<open>success_probability\<close> (the key may be
  missing). The decision counter is not incremented.
\<close>

definition evaluate_schedule_optimization ::
  "nat \<Rightarrow> real option \<Rightarrow> trainset_row list \<Rightarrow> datetime \<Rightarrow> ai_decision option" where
  "evaluate_schedule_optimization counter predicted trainsets current_time =
     (let hour = hour_of current_time in
      if hour \<in> set [6, 10, 14, 18, 22] \<and> minute_of current_time < 5 then
        let conf = (case predicted of None \<Rightarrow> 0.5 | Some p \<Rightarrow> p) in
        if conf > engine_confidence_threshold then
          Some \<lparr>decision_id = ''AUTO_SCHEDULE_'' @ str_nat counter,
                decision_kind = SCHEDULE_OPTIMIZATION,
                urgency = HIGH,
                timestamp = current_time,
                confidence = conf,
                plan = Optimize_schedule ''constraint_programming''
                  (min (int (length trainsets)) max_autonomous_trainsets)
                  (if hour \<in> set [10, 14] then ''efficiency'' else ''passenger_comfort''),
                affected_trainsets =
                  map row_trainset_id (filter (\<lambda>ts. row_status ts = ''AVAILABLE'') trainsets),
                estimated_impact =
                  [(''efficiency_gain'', 0.15), (''energy_saving'', 0.08),
                   (''passenger_satisfaction'', 0.12)],
                requires_human_approval = False,
                execution_deadline = Some (current_time + timedelta_minutes 15),
                approved = None\<rparr>
        else None
      else None)"

text \<open>\<^verbatim>\<open>_evaluate_maintenance_needs\<close>: the loop over the fleet, threading the counter.\<close>

fun evaluate_maintenance_needs ::
  "nat \<Rightarrow> trainset_row list \<Rightarrow> datetime \<Rightarrow> ai_decision list \<times> nat" where
  "evaluate_maintenance_needs counter [] current_time = ([], counter)"
| "evaluate_maintenance_needs counter (trainset # trainsets) current_time =
     (case row_next_maintenance_date trainset of
        None \<Rightarrow> evaluate_maintenance_needs counter trainsets current_time
      | Some due \<Rightarrow>
          let days_until_maintenance = due - date_of current_time in
          if days_until_maintenance \<le> 3 \<and> row_status trainset = ''AVAILABLE'' then
            let decision =
                  \<lparr>decision_id =
                     ''MAINT_'' @ row_trainset_id trainset @ ''_'' @ str_nat counter,
                   decision_kind = MAINTENANCE_SCHEDULING,
                   urgency = (if days_until_maintenance \<le> 1 then HIGH else MEDIUM),
                   timestamp = current_time,
                   confidence = 0.90,
                   plan = Schedule_maintenance (row_trainset_id trainset)
                     (current_time + timedelta_hours 2,
                      current_time + timedelta_hours 2 + timedelta_hours 4)
                     (if days_until_maintenance \<le> 1 then ''high'' else ''medium''),
                   affected_trainsets = [row_trainset_id trainset],
                   estimated_impact =
                     [(''availability_reduction'', 0.04), (''safety_improvement'', 0.95),
                      (''cost_saving'', 0.20)],
                   requires_human_approval = (days_until_maintenance \<le> 1),
                   execution_deadline = Some (current_time + timedelta_hours 24),
                   approved = None\<rparr>;
                (decisions, counter') =
                  evaluate_maintenance_needs (counter + 1) trainsets current_time
            in (decision # decisions, counter')
          else evaluate_maintenance_needs counter trainsets current_time)"

text \<open>\<^verbatim>\<open>_evaluate_emergency_situations\<close>.\<close>

definition emergency_decision :: "nat \<Rightarrow> trainset_row \<Rightarrow> datetime \<Rightarrow> ai_decision" where
  "emergency_decision counter trainset current_time =
     \<lparr>decision_id =
        ''EMERGENCY_FITNESS_'' @ row_trainset_id trainset @ ''_'' @ str_nat counter,
      decision_kind = EMERGENCY_RESPONSE,
      urgency = CRITICAL,
      timestamp = current_time,
      confidence = 1.0,
      plan = Emergency_deactivate (row_trainset_id trainset) ''fitness_expired'' True,
      affected_trainsets = [row_trainset_id trainset],
      estimated_impact =
        [(''safety_compliance'', 1.0), (''service_disruption'', 0.04),
         (''regulatory_risk'', - 0.99)],
      requires_human_approval = False,
      execution_deadline = Some (current_time + timedelta_minutes 5),
      approved = None\<rparr>"

fun evaluate_emergency_situations ::
  "nat \<Rightarrow> trainset_row list \<Rightarrow> datetime \<Rightarrow> ai_decision list \<times> nat" where
  "evaluate_emergency_situations counter [] current_time = ([], counter)"
| "evaluate_emergency_situations counter (trainset # trainsets) current_time =
     (case row_fitness_expiry_date trainset of
        None \<Rightarrow> evaluate_emergency_situations counter trainsets current_time
      | Some expiry \<Rightarrow>
          let days_until_expiry = expiry - date_of current_time in
          if days_until_expiry \<le> 0 \<and> row_status trainset \<noteq> ''OUT_OF_ORDER'' then
            let (decisions, counter') =
                  evaluate_emergency_situations (counter + 1) trainsets current_time
            in (emergency_decision counter trainset current_time # decisions, counter')
          else evaluate_emergency_situations counter trainsets current_time)"

text \<open>\<^verbatim>\<open>_evaluate_resource_allocation\<close>.\<close>

definition evaluate_resource_allocation ::
  "nat \<Rightarrow> trainset_row list \<Rightarrow> datetime \<Rightarrow> ai_decision list \<times> nat" where
  "evaluate_resource_allocation counter trainsets current_time =
     (if hour_of current_time = 22 \<and> minute_of current_time < 10 then
        let available_trainsets = filter (\<lambda>ts. row_status ts = ''AVAILABLE'') trainsets in
        if length available_trainsets \<ge> 6 then
          let cleaning_count = max 2 (length available_trainsets div 4);
              decision =
                \<lparr>decision_id = ''AUTO_CLEANING_'' @ str_nat counter,
                 decision_kind = CLEANING_SCHEDULE,
                 urgency = MEDIUM,
                 timestamp = current_time,
                 confidence = 0.85,
                 plan = Schedule_cleaning cleaning_count ''least_recently_cleaned'' 2 ''00:00'',
                 affected_trainsets =
                   map row_trainset_id (take cleaning_count available_trainsets),
                 estimated_impact =
                   [(''hygiene_improvement'', 0.30), (''passenger_satisfaction'', 0.15),
                    (''operational_availability'', - 0.02)],
                 requires_human_approval = False,
                 execution_deadline = Some (current_time + timedelta_minutes 30),
                 approved = None\<rparr>
          in ([decision], counter + 1)
        else ([], counter)
      else ([], counter))"

text \<open>
  \<^verbatim>\<open>_evaluate_system_state\<close>: one evaluator pass. The fleet snapshot that
  \<^verbatim>\<open>_get_current_trainsets\<close> returns (a placeholder for the database query) and the time
  that \<^verbatim>\<open>datetime.now()\<close> returns are parameters. \<open>emitted_decisions\<close> is the local list
  \<^verbatim>\<open>decisions\<close> together with the counter at the end; \<^verbatim>\<open>_process_decision\<close> stores each
  decision in the active dict under its id and appends it to the history.
\<close>

definition emitted_decisions ::
  "nat \<Rightarrow> real option \<Rightarrow> trainset_row list \<Rightarrow> datetime \<Rightarrow> ai_decision list \<times> nat" where
  "emitted_decisions counter predicted trainsets current_time =
     (let schedule_decision =
            evaluate_schedule_optimization counter predicted trainsets current_time;
          decisions0 = (case schedule_decision of None \<Rightarrow> [] | Some d \<Rightarrow> [d]);
          (maintenance_decisions, counter1) =
            evaluate_maintenance_needs counter trainsets current_time;
          (emergency_decisions, counter2) =
            evaluate_emergency_situations counter1 trainsets current_time;
          (resource_decisions, counter3) =
            evaluate_resource_allocation counter2 trainsets current_time
      in (decisions0 @ maintenance_decisions @ emergency_decisions @ resource_decisions,
          counter3))"

definition process_decision :: "engine_state \<Rightarrow> ai_decision \<Rightarrow> engine_state" where
  "process_decision st decision =
     st\<lparr>active_decisions := AList.update (decision_id decision) decision (active_decisions st),
        decision_history := decision_history st @ [decision]\<rparr>"

definition evaluate_system_state ::
  "real option \<Rightarrow> trainset_row list \<Rightarrow> datetime \<Rightarrow> engine_state \<Rightarrow> engine_state" where
  "evaluate_system_state predicted trainsets current_time st =
     (let (decisions, counter') =
            emitted_decisions (decision_counter st) predicted trainsets current_time
      in foldl process_decision (st\<lparr>decision_counter := counter'\<rparr>) decisions)"

section \<open>Decision engine: the executor\<close>

definition is_decision_ready_for_execution :: "ai_decision \<Rightarrow> datetime \<Rightarrow> bool" where
  "is_decision_ready_for_execution decision current_time =
     (if (case execution_deadline decision of
            None \<Rightarrow> False
          | Some deadline \<Rightarrow> current_time > deadline)
      then False
      else if requires_human_approval decision then approved decision = Some True
      else True)"

text \<open>
  \<^verbatim>\<open>_execute_decision\<close> writes through the status writer and the notifier, which are
  outside the core. What it comes to is a parameter of the executor: the handler returns a
  result with its \<^verbatim>\<open>success\<close> flag, or an exception escapes to the \<^verbatim>\<open>except\<close> clause of
  \<^verbatim>\<open>_execute_pending_decisions\<close>.
\<close>

datatype execution_result = Returned bool | Raised

text \<open>
  \<^verbatim>\<open>_execute_pending_decisions\<close>: the loop over \<^verbatim>\<open>list(self.active_decisions.items())\<close>.
  A decision that is ready is executed and its outcome recorded; it is deleted from the
  dict when the handler returned, and stays when an exception escaped. A decision that is
  not ready is left alone.
\<close>

fun execute_items ::
  "(ai_decision \<Rightarrow> execution_result) \<Rightarrow> datetime \<Rightarrow> (string \<times> ai_decision) list
     \<Rightarrow> engine_state \<Rightarrow> engine_state" where
  "execute_items run current_time [] st = st"
| "execute_items run current_time ((did, decision) # items) st =
     execute_items run current_time items
       (if is_decision_ready_for_execution decision current_time then
          (case run decision of
             Returned success \<Rightarrow>
               st\<lparr>recorded_outcomes :=
                    recorded_outcomes st @ [(decision_id decision, success)],
                  active_decisions := AList.delete did (active_decisions st)\<rparr>
           | Raised \<Rightarrow>
               st\<lparr>recorded_outcomes :=
                    recorded_outcomes st @ [(decision_id decision, False)]\<rparr>)
        else st)"

definition execute_pending_decisions ::
  "(ai_decision \<Rightarrow> execution_result) \<Rightarrow> datetime \<Rightarrow> engine_state \<Rightarrow> engine_state" where
  "execute_pending_decisions run current_time st =
     execute_items run current_time (active_decisions st) st"

section \<open>Intelligent scheduler: adaptive thresholds\<close>

text \<open>
  \<^verbatim>\<open>IntelligentAutoScheduler\<close> (intelligent_scheduler.py) keeps two thresholds,
  set in \<^verbatim>\<open>__init__\<close> to 0.75 and 0.85. The adaptive-learning loop calls
  \<^verbatim>\<open>_optimize_scheduling_parameters\<close>, which reads \<^verbatim>\<open>self.performance_history\<close>,
  a list of dicts that other loops append to. Python floats are modelled as reals.
  An entry of the history is reduced to the one key the function reads,
  \<^verbatim>\<open>actual_performance\<close>, which may be absent.
\<close>

record performance_entry =
  actual_performance :: "real option"

record scheduler_thresholds =
  confidence_threshold :: real
  auto_execution_threshold :: real

definition initial_thresholds :: scheduler_thresholds where
  "initial_thresholds =
     \<lparr>confidence_threshold = 0.75, auto_execution_threshold = 0.85\<rparr>"

text \<open>\<^verbatim>\<open>xs[-n:]\<close> for a positive \<open>n\<close>: the last \<open>n\<close> elements, all of them when there are fewer.\<close>

definition last_n :: "nat \<Rightarrow> 'a list \<Rightarrow> 'a list" where
  "last_n n xs = drop (length xs - n) xs"

text \<open>\<^verbatim>\<open>p.get('actual_performance', 0.8)\<close>\<close>

definition get_actual_performance :: "performance_entry \<Rightarrow> real" where
  "get_actual_performance p = (case actual_performance p of None \<Rightarrow> 0.8 | Some v \<Rightarrow> v)"

definition success_rate :: "performance_entry list \<Rightarrow> real" where
  "success_rate recent_performance =
     real (length (filter (\<lambda>p. get_actual_performance p > 0.7) recent_performance))
       / real (length recent_performance)"

definition optimize_scheduling_parameters ::
  "performance_entry list \<Rightarrow> scheduler_thresholds \<Rightarrow> scheduler_thresholds" where
  "optimize_scheduling_parameters performance_history st =
     (if length performance_history < 10 then st
      else
        let recent_performance = last_n 20 performance_history;
            rate = success_rate recent_performance
        in if rate > 0.9 then
             \<lparr>confidence_threshold = max 0.70 (confidence_threshold st - 0.01),
              auto_execution_threshold = max 0.80 (auto_execution_threshold st - 0.01)\<rparr>
           else if rate < 0.7 then
             \<lparr>confidence_threshold = min 0.85 (confidence_threshold st + 0.01),
              auto_execution_threshold = min 0.95 (auto_execution_threshold st + 0.01)\<rparr>
           else st)"

text \<open>
  A run of the adaptive loop: one tick per element of the list, each element being the
  performance history as that tick finds it.
\<close>

fun adaptive_ticks ::
  "scheduler_thresholds \<Rightarrow> performance_entry list list \<Rightarrow> scheduler_thresholds" where
  "adaptive_ticks st [] = st"
| "adaptive_ticks st (h # hs) = adaptive_ticks (optimize_scheduling_parameters h st) hs"

definition thresholds_in_bounds :: "scheduler_thresholds \<Rightarrow> bool" where
  "thresholds_in_bounds st \<longleftrightarrow>
     0.70 \<le> confidence_threshold st \<and> confidence_threshold st \<le> 0.85 \<and>
     0.80 \<le> auto_execution_threshold st \<and> auto_execution_threshold st \<le> 0.95"

section \<open>Concrete fleets and requests\<close>

text \<open>
  The trainset of scenario 2 of the specification: available, fitness certificate valid,
  no high-priority job card, mileage 50000, branding priority 1.
\<close>

definition scenario_trainset :: "string \<Rightarrow> trainset_data" where
  "scenario_trainset tid =
     \<lparr>trainset_id = tid, status = AVAILABLE, fitness_valid = True,
      has_high_priority_jobs = False, current_mileage = 50000, branding_priority = 1\<rparr>"

definition no_parameters :: algorithm_parameters where
  "no_parameters =
     \<lparr>population_size = None, generations = None, mutation_rate = None,
      initial_temperature = None, cooling_rate = None, min_temperature = None,
      max_iterations = None\<rparr>"

definition scenario_request :: "string \<Rightarrow> int \<Rightarrow> optimization_request" where
  "scenario_request alg n =
     \<lparr>optimization_id = ''OPT-1'', algorithm = Some alg, max_trainsets = n,
      parameters = no_parameters\<rparr>"

text \<open>
  The assignment-level reading of the specification: the score as the sum of the
  per-pair contributions of section 4.1, and the 0/1 valuation \<open>x[i,j] = 1\<close> iff the
  assignment maps trainset \<open>i\<close> to position \<open>j\<close>.
\<close>

definition spec_score :: "assignment \<Rightarrow> trainset_data list \<Rightarrow> real" where
  "spec_score assignments trainsets =
     (\<Sum>(tid, position) \<leftarrow> assignments.
        case trainset_dict trainsets tid of
          None \<Rightarrow> 0
        | Some trainset \<Rightarrow> spec_pair_contribution trainsets trainset position)"

definition valuation_of_assignment :: "assignment \<Rightarrow> cp_var \<Rightarrow> bool" where
  "valuation_of_assignment assignments x = (x \<in> set assignments)"

text \<open>
  Scenario 1 of the specification: TS001's fitness certificate expired yesterday, TS002's
  is valid; both are available. Day 0 is today.
\<close>

definition fleet_row :: "string \<Rightarrow> string \<Rightarrow> date option \<Rightarrow> datetime option \<Rightarrow> trainset_row" where
  "fleet_row tid st expiry cleaned =
     \<lparr>row_trainset_id = tid, row_status = st, row_fitness_expiry_date = expiry,
      row_next_maintenance_date = None, row_last_cleaning_date = cleaned\<rparr>"

definition expired_fitness_fleet :: "trainset_row list" where
  "expired_fitness_fleet =
     [fleet_row ''TS001'' ''AVAILABLE'' (Some (- 1)) None,
      fleet_row ''TS002'' ''AVAILABLE'' (Some 200) None]"

definition initial_engine_state :: engine_state where
  "initial_engine_state =
     \<lparr>decision_counter = 0, active_decisions = [], decision_history = [],
      recorded_outcomes = []\<rparr>"

text \<open>
  Nine available trainsets, TS001 cleaned most recently (one day ago) and TS009 least
  recently (nine days ago).
\<close>

definition cleaning_fleet :: "trainset_row list" where
  "cleaning_fleet =
     map (\<lambda>i. fleet_row (''TS00'' @ str_nat i) ''AVAILABLE'' None (Some (- 86400 * int i)))
       [1..<10]"

text \<open>An engine state whose one active decision, made at 12:00, had its deadline at 12:05.\<close>

definition stale_decision :: ai_decision where
  "stale_decision = emergency_decision 0 (fleet_row ''TS001'' ''AVAILABLE'' (Some (- 1)) None) 43200"

definition stale_engine_state :: engine_state where
  "stale_engine_state =
     \<lparr>decision_counter = 1,
      active_decisions = [(decision_id stale_decision, stale_decision)],
      decision_history = [stale_decision], recorded_outcomes = []\<rparr>"

text \<open>
  What every driver enforces on the assignment it returns: it is a dict (no id twice), no
  two ids share a position, and every id is the id of a trainset of the fleet whose
  fitness certificate is valid and which has no high-priority job card.
\<close>

definition eligible :: "trainset_data \<Rightarrow> bool" where
  "eligible trainset \<longleftrightarrow> fitness_valid trainset \<and> \<not> has_high_priority_jobs trainset"

definition admissible :: "trainset_data list \<Rightarrow> assignment \<Rightarrow> bool" where
  "admissible trainsets assignments \<longleftrightarrow>
     distinct (map fst assignments) \<and> distinct (map snd assignments) \<and>
     (\<forall>tid \<in> set (map fst assignments).
        \<exists>trainset \<in> set trainsets. trainset_id trainset = tid \<and> eligible trainset)"

text \<open>The same with injectivity stated on the set of pairs, as the proofs use it.\<close>

definition adm :: "trainset_data list \<Rightarrow> assignment \<Rightarrow> bool" where
  "adm ts A \<longleftrightarrow> distinct (map fst A) \<and> inj_on snd (set A) \<and>
     (\<forall>p \<in> set A. \<exists>t \<in> set ts. trainset_id t = fst p \<and> eligible t)"

text \<open>Invariants of the drivers' loops: of the crossover loop (the child and the set of
  positions it uses), of the annealing loop, and of the extraction loop of the exact
  driver.\<close>

definition child_ok :: "trainset_data list \<Rightarrow> assignment \<times> nat set \<Rightarrow> bool" where
  "child_ok fleet cu \<longleftrightarrow> adm fleet (fst cu) \<and> snd ` set (fst cu) \<subseteq> snd cu"

definition annealing_ok :: "trainset_data list \<Rightarrow> annealing_state \<Rightarrow> bool" where
  "annealing_ok fleet st \<longleftrightarrow> adm fleet (current_solution st) \<and> adm fleet (best_solution st)"

definition extracted_ok ::
  "(cp_var \<Rightarrow> bool) \<Rightarrow> nat list \<Rightarrow> trainset_data list \<Rightarrow> assignment \<Rightarrow> bool" where
  "extracted_ok v positions fleet A \<longleftrightarrow>
     distinct (map fst A) \<and>
     (\<forall>p \<in> set A. snd p \<in> set positions \<and>
        (\<exists>t \<in> set fleet. trainset_id t = fst p \<and> v (trainset_id t, snd p)))"

text \<open>An environment whose solver reports that nothing can be assigned, whose random
  stream is constant and whose sets iterate in insertion order.\<close>

definition nothing_assigned :: environment where
  "nothing_assigned =
     \<lparr>cp_sat_solver = (\<lambda>m. \<lparr>solver_status = OPTIMAL, solver_value = (\<lambda>x. False)\<rparr>),
      random_stream = (\<lambda>n. 0),
      set_iteration_order = (\<lambda>xs. xs)\<rparr>"

text \<open>
  A run of each driver on two scenario trainsets and two positions: a random stream whose
  every number is \<open>2^52\<close> (\<^verbatim>\<open>np.random.random()\<close> is then 0.5, and a choice among one,
  two or four elements takes the first), a population of 10 over 2 generations, one
  annealing round, and a solver that answers OPTIMAL with exactly the variables of a given
  assignment set to 1.
\<close>

definition half_stream :: rng where
  "half_stream = (\<lambda>n. 4503599627370496)"

definition two_fleet :: "trainset_data list" where
  "two_fleet = [scenario_trainset ''TS001'', scenario_trainset ''TS002'']"

definition small_run_request :: optimization_request where
  "small_run_request =
     \<lparr>optimization_id = ''OPT-2'', algorithm = None, max_trainsets = 2,
      parameters = no_parameters\<lparr>population_size := Some 10, generations := Some 2,
                                 max_iterations := Some 1\<rparr>\<rparr>"

definition optimal_answer :: "assignment \<Rightarrow> cp_solver_answer" where
  "optimal_answer assignments =
     \<lparr>solver_status = OPTIMAL, solver_value = valuation_of_assignment assignments\<rparr>"

definition one_fleet_answer :: cp_solver_answer where
  "one_fleet_answer = optimal_answer [(''TS001'', 0)]"

definition two_fleet_answer :: cp_solver_answer where
  "two_fleet_answer = optimal_answer [(''TS001'', 0), (''TS002'', 1)]"

definition three_fleet_answer :: cp_solver_answer where
  "three_fleet_answer = optimal_answer [(''TS001'', 0), (''TS002'', 1), (''TS003'', 2)]"

text \<open>A fleet of one trainset that is in maintenance, with a valid fitness certificate and
  no job card.\<close>

definition maintenance_fleet :: "trainset_data list" where
  "maintenance_fleet = [(scenario_trainset ''TS001'')\<lparr>status := MAINTENANCE\<rparr>]"

text \<open>A fleet of one trainset whose fitness certificate is not valid.\<close>

definition unfit_fleet :: "trainset_data list" where
  "unfit_fleet = [(scenario_trainset ''TS001'')\<lparr>fitness_valid := False\<rparr>]"

text \<open>Scenario 2 of the specification: three scenario trainsets, three positions.\<close>

definition three_fleet :: "trainset_data list" where
  "three_fleet =
     [scenario_trainset ''TS001'', scenario_trainset ''TS002'', scenario_trainset ''TS003'']"

section \<open>Properties of the shared scoring function\<close>

lemma score_of_pair_closed_form:
  "score_of_pair trainsets trainset position =
     spec_pair_contribution trainsets trainset position - job_card_penalty trainset"
  by (simp add: score_of_pair_def spec_pair_contribution_def job_card_penalty_def Let_def
      mileage_balance_weight_def branding_priority_weight_def mult.commute)

lemma score_loop_sum:
  "score_loop total_score assignments trainsets =
     total_score +
     (\<Sum>(tid, position) \<leftarrow> assignments.
        case trainset_dict trainsets tid of
          None \<Rightarrow> 0
        | Some trainset \<Rightarrow> score_of_pair trainsets trainset position)"
  by (induction total_score assignments trainsets rule: score_loop.induct)
     (simp_all split: option.split)

text \<open>
  Claim C2, as stated, fails: for a trainset with a high-priority job card the code
  subtracts 500, which the claimed sum does not. One such trainset at position 0 scores
  \<open>-234\<close>; the claimed sum is 266.
\<close>

theorem score_without_job_penalty_counterexample:
  "calculate_solution_score [(''TS001'', 0)]
     [(scenario_trainset ''TS001'')\<lparr>has_high_priority_jobs := True\<rparr>] = - 234 \<and>
   spec_score [(''TS001'', 0)]
     [(scenario_trainset ''TS001'')\<lparr>has_high_priority_jobs := True\<rparr>] = 266"
  by (simp add: calculate_solution_score_def spec_score_def trainset_dict_def
      scenario_trainset_def score_of_pair_def spec_pair_contribution_def mean_def
      mileage_balance_weight_def branding_priority_weight_def)

text \<open>
  Claim C2, amended. For every fleet and every assignment the shared scoring function
  returns the sum, over the assigned pairs whose id the fleet knows, of: 100; plus 50 if
  the fitness certificate is valid and minus 1000 if not; the mileage-balance term times
  0.6; the branding term times 0.3; the position term; and minus 500 if the trainset has
  high-priority job cards. A pair whose id is not in the fleet adds nothing.
\<close>

theorem calculate_solution_score_sum:
  "calculate_solution_score assignments trainsets =
     (\<Sum>(tid, position) \<leftarrow> assignments.
        case trainset_dict trainsets tid of
          None \<Rightarrow> 0
        | Some trainset \<Rightarrow>
            100 + (if fitness_valid trainset then 50 else - 1000)
            + max 0 (100 - \<bar>current_mileage trainset - mean (map current_mileage trainsets)\<bar> / 1000)
                * 0.6
            + real_of_int (branding_priority trainset * 20) * 0.3
            + real_of_int (max 0 (50 - 2 * int position))
            - (if has_high_priority_jobs trainset then 500 else 0))"
  unfolding calculate_solution_score_def score_loop_sum score_of_pair_closed_form
    spec_pair_contribution_def job_card_penalty_def
  by simp

section \<open>Properties of the exact driver's objective\<close>

lemma eval_linear_expr_concat:
  "eval_linear_expr v (concat es) = (\<Sum>e \<leftarrow> es. eval_linear_expr v e)"
  by (induction es) (simp_all add: eval_linear_expr_def)

lemma eval_linear_expr_map:
  "eval_linear_expr v (map (\<lambda>j. (c j, x j)) js) = (\<Sum>j \<leftarrow> js. if v (x j) then c j else 0)"
  by (simp add: eval_linear_expr_def comp_def)

lemma objective_coefficient_closed_form:
  "objective_coefficient trainset j =
     100 + (if fitness_valid trainset then 50 else 0)
     + max 0 (50 - py_int (current_mileage trainset / 1000))
     + branding_priority trainset * 10 + max 0 (20 - int j)"
  by (simp add: objective_coefficient_def Let_def)

lemma objective_value_build_cp_model:
  "objective_value (build_cp_model cfg request trainsets) v =
     (\<Sum>trainset \<leftarrow> trainsets. \<Sum>j \<leftarrow> range_int (max_positions_of cfg request).
        if v (trainset_id trainset, j) then objective_coefficient trainset j else 0)"
  by (simp add: objective_value_def build_cp_model_def Let_def eval_linear_expr_concat
      eval_linear_expr_map comp_def)

text \<open>
  Claim C3, as stated, fails: for one scenario trainset and the candidate assignment that
  puts it at position 0, the objective of the CP-SAT model is 180 and the shared scoring
  function gives 266.
\<close>

theorem cp_sat_objective_counterexample:
  "objective_value
     (build_cp_model default_settings (scenario_request ''constraint_programming'' 1)
        [scenario_trainset ''TS001''])
     (valuation_of_assignment [(''TS001'', 0)]) = 180 \<and>
   calculate_solution_score [(''TS001'', 0)] [scenario_trainset ''TS001''] = 266"
  by (simp add: objective_value_def build_cp_model_def eval_linear_expr_def range_int_def
      max_positions_of_def scenario_request_def scenario_trainset_def default_settings_def
      objective_coefficient_def py_int_def valuation_of_assignment_def
      calculate_solution_score_def trainset_dict_def score_of_pair_def mean_def
      mileage_balance_weight_def branding_priority_weight_def)

text \<open>
  Claim C3, amended. The exact driver maximizes an integer linear objective of its own:
  for every fleet and every 0/1 valuation of the variables over the positions
  \<open>[0, P')\<close>, the objective is the sum, over the variables that are 1, of 100, plus 50 if
  the fitness certificate is valid, plus \<open>max(0, 50 - int(mileage / 1000))\<close>, plus 10 times
  the branding priority, plus \<open>max(0, 20 - j)\<close>. The shared scoring function is what the
  driver reports as the score of the assignment it returns.
\<close>

theorem cp_sat_objective_value:
  "objective_value (build_cp_model cfg request trainsets) v =
     (\<Sum>trainset \<leftarrow> trainsets. \<Sum>j \<leftarrow> range_int (max_positions_of cfg request).
        if v (trainset_id trainset, j)
        then 100 + (if fitness_valid trainset then 50 else 0)
             + max 0 (50 - py_int (current_mileage trainset / 1000))
             + branding_priority trainset * 10 + max 0 (20 - int j)
        else 0) \<and>
   solution_score (solve_with_cp_sat cfg answer request trainsets) =
     calculate_solution_score
       (solution_assignments (solve_with_cp_sat cfg answer request trainsets)) trainsets"
proof
  show "objective_value (build_cp_model cfg request trainsets) v =
     (\<Sum>trainset \<leftarrow> trainsets. \<Sum>j \<leftarrow> range_int (max_positions_of cfg request).
        if v (trainset_id trainset, j)
        then 100 + (if fitness_valid trainset then 50 else 0)
             + max 0 (50 - py_int (current_mileage trainset / 1000))
             + branding_priority trainset * 10 + max 0 (20 - int j)
        else 0)"
    unfolding objective_value_build_cp_model objective_coefficient_closed_form ..
next
  show "solution_score (solve_with_cp_sat cfg answer request trainsets) =
     calculate_solution_score
       (solution_assignments (solve_with_cp_sat cfg answer request trainsets)) trainsets"
    by (simp add: solve_with_cp_sat_def Let_def calculate_solution_score_def)
qed

section \<open>The drivers return admissible assignments\<close>


lemma set_update_distinct:
  "distinct (map fst A) \<Longrightarrow> set (AList.update k v A) = insert (k, v) {p \<in> set A. fst p \<noteq> k}"
  by (induction A) (auto simp: rev_image_eqI)

lemma admissible_adm: "admissible ts A = adm ts A"
  unfolding admissible_def adm_def
  by (auto simp: distinct_map dest: distinct_map [THEN iffD1])

lemma random_choice_in: "xs \<noteq> [] \<Longrightarrow> fst (random_choice xs g) \<in> set xs"
  by (simp add: random_choice_def rng_draw_def)

lemma adm_update:
  assumes "adm ts A" and "\<exists>t \<in> set ts. trainset_id t = k \<and> eligible t"
    and "\<And>k'. (k', v) \<in> set A \<Longrightarrow> k' = k"
  shows "adm ts (AList.update k v A)"
  using assms unfolding adm_def
  apply (simp add: set_update_distinct distinct_update)
  apply (auto simp: inj_on_def)
  done

lemma snd_update_subset: "snd ` set (AList.update k v A) \<subseteq> insert v (snd ` set A)"
  by (induction A) auto

lemma fst_update: "fst ` set (AList.update k v A) = insert k (fst ` set A)"
  by (induction A) auto

lemma adm_Nil: "adm ts []"
  by (simp add: adm_def)

lemma initial_assignment_loop_adm:
  assumes "adm fleet A" and "distinct avail" and "set avail \<inter> snd ` set A = {}"
    and "set ts \<subseteq> set fleet"
  shows "adm fleet (fst (initial_assignment_loop ts avail A g))"
  using assms
proof (induction ts arbitrary: avail A g)
  case Nil
  then show ?case by simp
next
  case (Cons t ts)
  from Cons.prems(4) have sub: "set ts \<subseteq> set fleet" and t: "t \<in> set fleet" by auto
  show ?case
  proof (cases "avail \<noteq> [] \<and> fitness_valid t \<and> \<not> has_high_priority_jobs t")
    case False
    with Cons.IH [OF Cons.prems(1-3) sub] show ?thesis by auto
  next
    case True
    obtain u g1 where u: "random_random g = (u, g1)" by (cases "random_random g")
    show ?thesis
    proof (cases "u > 0.3")
      case False
      with True u Cons.IH [OF Cons.prems(1-3) sub] show ?thesis by simp
    next
      case big: True
      obtain pos g2 where p: "random_choice avail g1 = (pos, g2)"
        by (cases "random_choice avail g1")
      from True random_choice_in [of avail g1] p have pos: "pos \<in> set avail" by simp
      with Cons.prems(3) have fresh: "pos \<notin> snd ` set A" by auto
      have a: "adm fleet (AList.update (trainset_id t) pos A)"
      proof (rule adm_update [OF Cons.prems(1)])
        show "\<exists>x \<in> set fleet. trainset_id x = trainset_id t \<and> eligible x"
          using True t by (auto simp: eligible_def)
      next
        fix k' assume "(k', pos) \<in> set A"
        with fresh show "k' = trainset_id t" by force
      qed
      have b: "distinct (remove1 pos avail)" using Cons.prems(2) by simp
      have c: "set (remove1 pos avail) \<inter> snd ` set (AList.update (trainset_id t) pos A) = {}"
      proof -
        have "set (remove1 pos avail) = set avail - {pos}" using Cons.prems(2) by simp
        moreover have "snd ` set (AList.update (trainset_id t) pos A) \<subseteq> insert pos (snd ` set A)"
          by (rule snd_update_subset)
        ultimately show ?thesis using Cons.prems(3) by blast
      qed
      from Cons.IH [OF a b c sub] True u big p show ?thesis by simp
    qed
  qed
qed

lemma random_assignment_adm: "adm fleet (fst (random_assignment m fleet g))"
  unfolding random_assignment_def
  by (rule initial_assignment_loop_adm) (simp_all add: adm_Nil range_int_def)

lemma initial_population_adm:
  "\<forall>a \<in> set (fst (initial_population n m fleet g)). adm fleet a"
proof (induction n arbitrary: g)
  case 0
  then show ?case by simp
next
  case (Suc n)
  obtain a g1 where a: "random_assignment m fleet g = (a, g1)"
    by (cases "random_assignment m fleet g")
  obtain pop g2 where p: "initial_population n m fleet g1 = (pop, g2)"
    by (cases "initial_population n m fleet g1")
  from random_assignment_adm [of fleet m g] a have "adm fleet a" by simp
  moreover from Suc.IH [of g1] p have "\<forall>a \<in> set pop. adm fleet a" by simp
  ultimately show ?case using a p by simp
qed


lemma take_position_ok:
  assumes "child_ok fleet cu" and "\<exists>t \<in> set fleet. trainset_id t = tid \<and> eligible t"
  shows "child_ok fleet (take_position tid p cu)"
proof (cases cu)
  case (Pair child used)
  show ?thesis
  proof (cases "p \<in> used")
    case True
    with Pair assms(1) show ?thesis by (simp add: take_position_def)
  next
    case False
    with Pair assms(1) have fresh: "p \<notin> snd ` set child" by (auto simp: child_ok_def)
    have "adm fleet (AList.update tid p child)"
    proof (rule adm_update)
      show "adm fleet child" using assms(1) Pair by (simp add: child_ok_def)
      show "\<exists>t \<in> set fleet. trainset_id t = tid \<and> eligible t" by (rule assms(2))
    next
      fix k' assume "(k', p) \<in> set child"
      with fresh show "k' = tid" by force
    qed
    moreover have "snd ` set (AList.update tid p child) \<subseteq> insert p used"
      using snd_update_subset [of tid p child] assms(1) Pair by (auto simp: child_ok_def)
    ultimately show ?thesis using Pair False by (simp add: take_position_def child_ok_def)
  qed
qed

lemma adm_key_eligible:
  "adm fleet A \<Longrightarrow> map_of A tid = Some p \<Longrightarrow> \<exists>t \<in> set fleet. trainset_id t = tid \<and> eligible t"
  by (force simp: adm_def dest!: map_of_SomeD)

lemma crossover_step_ok:
  assumes "child_ok fleet (fst st)" and "adm fleet parent1" and "adm fleet parent2"
  shows "child_ok fleet (fst (crossover_step parent1 parent2 tid st))"
proof -
  obtain cu g where st: "st = (cu, g)" by (cases st)
  obtain u g1 where u: "random_random g = (u, g1)" by (cases "random_random g")
  show ?thesis
  proof (cases "u < 0.5 \<and> map_of parent1 tid \<noteq> None")
    case True
    then obtain p where p: "map_of parent1 tid = Some p" by auto
    from take_position_ok [OF _ adm_key_eligible [OF assms(2) p]] assms(1) st
    have "child_ok fleet (take_position tid p cu)" by simp
    with True p st u show ?thesis by (simp add: crossover_step_def)
  next
    case False
    show ?thesis
    proof (cases "map_of parent2 tid")
      case None
      with False st u assms(1) show ?thesis by (simp add: crossover_step_def)
    next
      case (Some p)
      from take_position_ok [OF _ adm_key_eligible [OF assms(3) Some]] assms(1) st
      have "child_ok fleet (take_position tid p cu)" by simp
      with False Some st u show ?thesis by (auto simp: crossover_step_def)
    qed
  qed
qed

lemma crossover_loop_ok:
  assumes "child_ok fleet (fst st)" and "adm fleet parent1" and "adm fleet parent2"
  shows "child_ok fleet (fst (crossover_loop tids parent1 parent2 st))"
  using assms(1)
proof (induction tids arbitrary: st)
  case Nil
  then show ?case by simp
next
  case (Cons tid tids)
  from Cons.prems have "child_ok fleet (fst (crossover_step parent1 parent2 tid st))"
    using assms(2,3) by (rule crossover_step_ok)
  then show ?case using Cons.IH by simp
qed

lemma mutate_adm:
  assumes "child_ok fleet (child, used)"
  shows "adm fleet (fst (mutate rate m child used g))"
proof -
  from assms have a: "adm fleet child" and s: "snd ` set child \<subseteq> used"
    by (simp_all add: child_ok_def)
  obtain u g1 where u: "random_random g = (u, g1)" by (cases "random_random g")
  show ?thesis
  proof (cases "u < rate \<and> child \<noteq> []")
    case False
    with u a show ?thesis by (auto simp: mutate_def)
  next
    case True
    obtain t g2 where t: "random_choice (map fst child) g1 = (t, g2)"
      by (cases "random_choice (map fst child) g1")
    let ?avail = "filter (\<lambda>p. p \<notin> used) (range_int m)"
    show ?thesis
    proof (cases "?avail = []")
      case e: True
      with True u t a show ?thesis by (simp add: mutate_def)
    next
      case ne: False
      obtain np g3 where np: "random_choice ?avail g2 = (np, g3)"
        by (cases "random_choice ?avail g2")
      from random_choice_in [OF ne, of g2] np have "np \<in> set ?avail" by simp
      then have fresh: "np \<notin> snd ` set child" using s by auto
      from True random_choice_in [of "map fst child" g1] t have tin: "t \<in> fst ` set child"
        by simp
      have "adm fleet (AList.update t np child)"
      proof (rule adm_update [OF a])
        show "\<exists>x \<in> set fleet. trainset_id x = t \<and> eligible x"
          using a tin by (auto simp: adm_def)
      next
        fix k' assume "(k', np) \<in> set child"
        with fresh show "k' = t" by force
      qed
      with True u t ne np show ?thesis by (simp add: mutate_def)
    qed
  qed
qed

lemma make_child_adm:
  assumes "adm fleet parent1" and "adm fleet parent2"
  shows "adm fleet (fst (make_child set_order rate m parent1 parent2 g))"
proof -
  let ?r = "crossover_loop (set_order (remdups (map fst parent1 @ map fst parent2)))
              parent1 parent2 (([], {}), g)"
  have "child_ok fleet (fst (([], {}), g))" by (simp add: child_ok_def adm_Nil)
  then have "child_ok fleet (fst ?r)" using assms by (rule crossover_loop_ok)
  then show ?thesis
    by (auto simp: make_child_def Let_def split: prod.split intro: mutate_adm)
qed

lemma random_randint_Inr:
  "random_randint high g = Inr (i, g') \<Longrightarrow> 0 < high \<and> i < nat high"
  by (auto simp: random_randint_def rng_draw_def split: if_splits)

lemma offspring_loop_adm:
  assumes "\<forall>p \<in> set scored. adm fleet (fst p)"
    and "\<forall>a \<in> set newpop. adm fleet a"
    and "offspring_loop set_order rate m pop_size elite scored newpop g = Inr (pop', g')"
  shows "\<forall>a \<in> set pop'. adm fleet a"
  using assms
proof (induction set_order rate m pop_size elite scored newpop g rule: offspring_loop.induct)
  case (1 set_order rate m pop_size elite scored newpop g)
  show ?case
  proof (cases "int (length newpop) < pop_size")
    case False
    with "1.prems"(2,3) show ?thesis by (simp add: offspring_loop.simps)
  next
    case True
    from True "1.prems"(3) obtain i1 g1 where r1: "random_randint (elite * 2) g = Inr (i1, g1)"
      by (auto simp: offspring_loop.simps [of _ _ _ _ _ _ newpop g] split: sum.splits)
    from True "1.prems"(3) r1 have l1: "i1 < length scored"
      by (auto simp: offspring_loop.simps [of _ _ _ _ _ _ newpop g] split: if_splits)
    from True "1.prems"(3) r1 l1 obtain i2 g2 where
      r2: "random_randint (elite * 2) g1 = Inr (i2, g2)"
      by (auto simp: offspring_loop.simps [of _ _ _ _ _ _ newpop g] split: sum.splits)
    from True "1.prems"(3) r1 l1 r2 have l2: "i2 < length scored"
      by (auto simp: offspring_loop.simps [of _ _ _ _ _ _ newpop g] split: if_splits)
    obtain child g3 where
      c: "make_child set_order rate m (fst (scored ! i1)) (fst (scored ! i2)) g2 = (child, g3)"
      by (cases "make_child set_order rate m (fst (scored ! i1)) (fst (scored ! i2)) g2")
    from "1.prems"(1) l1 l2 have "adm fleet (fst (scored ! i1))" and "adm fleet (fst (scored ! i2))"
      by auto
    then have "adm fleet (fst (make_child set_order rate m (fst (scored ! i1))
        (fst (scored ! i2)) g2))"
      by (rule make_child_adm)
    with c "1.prems"(2) have ok: "\<forall>a \<in> set (newpop @ [child]). adm fleet a" by simp
    from True "1.prems"(3) r1 l1 r2 l2 c have
      "offspring_loop set_order rate m pop_size elite scored (newpop @ [child]) g3
         = Inr (pop', g')"
      by (simp add: offspring_loop.simps [of _ _ _ _ _ _ newpop g])
    with "1.IH" [OF True r1 refl l1 r2 refl l2 refl refl c [symmetric] refl "1.prems"(1) ok]
    show ?thesis by simp
  qed
qed

lemma evaluate_population_sets:
  assumes "evaluate_population fleet pop scored best = (scored', best')"
  shows "fst ` set scored' = fst ` set scored \<union> set pop \<and>
         (\<forall>a s. best' = Some (a, s) \<longrightarrow> best = Some (a, s) \<or> a \<in> set pop)"
  using assms
proof (induction pop arbitrary: scored best)
  case Nil
  then show ?case by simp
next
  case (Cons a pop)
  let ?sc = "calculate_solution_score a fleet"
  let ?b = "if improves ?sc best then Some (a, ?sc) else best"
  from Cons.prems have "evaluate_population fleet pop (scored @ [(a, ?sc)]) ?b = (scored', best')"
    by (simp add: Let_def)
  from Cons.IH [OF this] show ?case by (auto split: if_splits)
qed

lemma generation_loop_adm:
  assumes "\<forall>a \<in> set pop. adm fleet a"
    and "\<forall>a s. best = Some (a, s) \<longrightarrow> adm fleet a"
    and "generation_loop n set_order rate m pop_size fleet pop best g = Inr best'"
  shows "\<forall>a s. best' = Some (a, s) \<longrightarrow> adm fleet a"
  using assms
proof (induction n arbitrary: pop best g)
  case 0
  then show ?case by simp
next
  case (Suc n)
  obtain scored b1 where ev: "evaluate_population fleet pop [] best = (scored, b1)"
    by (cases "evaluate_population fleet pop [] best")
  let ?sorted = "sort_key (\<lambda>x. - snd x) scored"
  let ?elite = "pop_size div 10"
  let ?new = "map fst (py_slice_to ?elite ?sorted)"
  from evaluate_population_sets [OF ev]
  have sc: "fst ` set scored = set pop"
    and b1: "\<forall>a s. b1 = Some (a, s) \<longrightarrow> best = Some (a, s) \<or> a \<in> set pop"
    by simp_all
  from sc Suc.prems(1) have sorted_ok: "\<forall>p \<in> set ?sorted. adm fleet (fst p)" by auto
  have "set (py_slice_to ?elite ?sorted) \<subseteq> set ?sorted"
    by (auto simp: py_slice_to_def dest: in_set_takeD)
  with sorted_ok have new_ok: "\<forall>a \<in> set ?new. adm fleet a" by auto
  from b1 Suc.prems(1,2) have b1_ok: "\<forall>a s. b1 = Some (a, s) \<longrightarrow> adm fleet a" by blast
  from Suc.prems(3) ev obtain pop' g' where
    off: "offspring_loop set_order rate m pop_size ?elite ?sorted ?new g = Inr (pop', g')"
    and rest: "generation_loop n set_order rate m pop_size fleet pop' b1 g' = Inr best'"
    by (auto simp: Let_def split: sum.splits)
  from offspring_loop_adm [OF sorted_ok new_ok off] have "\<forall>a \<in> set pop'. adm fleet a" .
  from Suc.IH [OF this b1_ok rest] show ?case .
qed

lemma solve_with_genetic_algorithm_adm:
  assumes "solve_with_genetic_algorithm cfg set_order g request fleet = Inr sol"
  shows "adm fleet (solution_assignments sol)"
proof -
  let ?ps = "get_or (population_size (parameters request)) 100"
  let ?m = "max_positions_of cfg request"
  obtain pop g1 where ip: "initial_population (nat ?ps) ?m fleet g = (pop, g1)"
    by (cases "initial_population (nat ?ps) ?m fleet g")
  from initial_population_adm [of "nat ?ps" ?m fleet g] ip
  have pop_ok: "\<forall>a \<in> set pop. adm fleet a" by simp
  from assms ip obtain best where
    gl: "generation_loop (nat (get_or (generations (parameters request)) 1000)) set_order
           (get_or (mutation_rate (parameters request)) 0.1) ?m ?ps fleet pop None g1 = Inr best"
    by (auto simp: solve_with_genetic_algorithm_def Let_def split: sum.splits)
  from generation_loop_adm [OF pop_ok _ gl]
  have best_ok: "\<forall>a s. best = Some (a, s) \<longrightarrow> adm fleet a" by simp
  from assms ip gl best_ok show ?thesis
    by (auto simp: solve_with_genetic_algorithm_def Let_def adm_Nil
        split: option.splits if_splits)
qed


lemma dict_get_Inr: "dict_get A k = Inr v \<Longrightarrow> map_of A k = Some v"
  by (simp add: dict_get_def split: option.splits)

lemma adm_swap:
  assumes "adm fleet A" and "map_of A t1 = Some pos1" and "map_of A t2 = Some pos2"
  shows "adm fleet (AList.update t2 pos1 (AList.update t1 pos2 A))"
proof -
  from assms(1) have d: "distinct (map fst A)" and i: "inj_on snd (set A)"
    and e: "\<forall>p \<in> set A. \<exists>t \<in> set fleet. trainset_id t = fst p \<and> eligible t"
    by (simp_all add: adm_def)
  from assms(2,3) have m1: "(t1, pos1) \<in> set A" and m2: "(t2, pos2) \<in> set A"
    by (auto dest: map_of_SomeD)
  let ?A1 = "AList.update t1 pos2 A"
  have d1: "distinct (map fst ?A1)" using d by (simp add: distinct_update)
  have s1: "set ?A1 = insert (t1, pos2) {p \<in> set A. fst p \<noteq> t1}"
    using d by (rule set_update_distinct)
  have s2: "set (AList.update t2 pos1 ?A1) = insert (t2, pos1) {p \<in> set ?A1. fst p \<noteq> t2}"
    using d1 by (rule set_update_distinct)
  have uniq: "\<And>k v v'. (k, v) \<in> set A \<Longrightarrow> (k, v') \<in> set A \<Longrightarrow> v = v'"
    using d by (meson eq_key_imp_eq_value)
  have inj: "\<And>k k' v. (k, v) \<in> set A \<Longrightarrow> (k', v) \<in> set A \<Longrightarrow> k = k'"
    using i by (force simp: inj_on_def)
  have "inj_on snd (set (AList.update t2 pos1 ?A1))"
    unfolding s2 s1 inj_on_def using m1 m2 uniq inj by (auto; blast)
  moreover have "\<forall>p \<in> set (AList.update t2 pos1 ?A1).
      \<exists>t \<in> set fleet. trainset_id t = fst p \<and> eligible t"
  proof -
    have el: "\<And>k v. (k, v) \<in> set A \<Longrightarrow> \<exists>t \<in> set fleet. trainset_id t = k \<and> eligible t"
      using e by force
    show ?thesis unfolding s2 s1 using el m1 m2 by auto
  qed
  moreover have "distinct (map fst (AList.update t2 pos1 ?A1))"
    using d1 by (simp add: distinct_update)
  ultimately show ?thesis by (simp add: adm_def)
qed

lemma swap_neighbor_adm:
  assumes "adm fleet A" and "swap_neighbor A g = Inr (A', g')"
  shows "adm fleet A'"
proof -
  obtain t1 t2 g1 where c: "random_choice2 (map fst A) g = ((t1, t2), g1)"
    by (cases "random_choice2 (map fst A) g") auto
  from assms(2) c obtain pos1 pos2 where
    "dict_get A t1 = Inr pos1" and "dict_get A t2 = Inr pos2"
    and A': "A' = AList.update t2 pos1 (AList.update t1 pos2 A)"
    by (auto simp: swap_neighbor_def split: sum.splits)
  then have "map_of A t1 = Some pos1" and "map_of A t2 = Some pos2"
    by (auto dest: dict_get_Inr)
  with assms(1) show ?thesis unfolding A' by (rule adm_swap)
qed

lemma filter_other_nonempty:
  assumes "distinct xs" and "length xs > 1"
  shows "filter (\<lambda>p. p \<noteq> a) xs \<noteq> []"
proof -
  from assms(2) obtain x y zs where xs: "xs = x # y # zs"
    by (cases xs; cases "tl xs") auto
  with assms(1) have "x \<noteq> y" by simp
  then have "x \<noteq> a \<or> y \<noteq> a" by auto
  with xs show ?thesis by auto
qed

lemma move_neighbor_adm:
  assumes "adm fleet A" and "A \<noteq> []" and "move_neighbor m A g = Inr (A', g')"
  shows "adm fleet A'"
proof -
  obtain t g1 where c: "random_choice (map fst A) g = (t, g1)"
    by (cases "random_choice (map fst A) g")
  from assms(3) c obtain old where og: "dict_get A t = Inr old"
    by (auto simp: move_neighbor_def split: sum.splits)
  then have told: "(t, old) \<in> set A" by (auto dest!: dict_get_Inr map_of_SomeD)
  let ?avail = "filter (\<lambda>p. p \<notin> set (map snd A) \<or> p = old) (range_int m)"
  show ?thesis
  proof (cases "length ?avail > 1")
    case False
    with assms(1,3) c og show ?thesis by (simp add: move_neighbor_def)
  next
    case True
    obtain np g2 where n: "random_choice (filter (\<lambda>p. p \<noteq> old) ?avail) g1 = (np, g2)"
      by (cases "random_choice (filter (\<lambda>p. p \<noteq> old) ?avail) g1")
    have "distinct ?avail" by (simp add: range_int_def)
    then have "filter (\<lambda>p. p \<noteq> old) ?avail \<noteq> []" using True by (rule filter_other_nonempty)
    from random_choice_in [OF this, of g1] n have "np \<in> set (filter (\<lambda>p. p \<noteq> old) ?avail)"
      by simp
    then have fresh: "np \<notin> snd ` set A" by auto
    have "adm fleet (AList.update t np A)"
    proof (rule adm_update [OF assms(1)])
      show "\<exists>x \<in> set fleet. trainset_id x = t \<and> eligible x"
        using assms(1) told by (force simp: adm_def)
    next
      fix k' assume "(k', np) \<in> set A"
      with fresh show "k' = t" by force
    qed
    moreover from assms(3) c og True n have "A' = AList.update t np A"
      by (simp add: move_neighbor_def)
    ultimately show ?thesis by simp
  qed
qed

lemma neighbor_of_adm:
  assumes "adm fleet A" and "neighbor_of m A g = Inr (A', g')"
  shows "adm fleet A'"
proof (cases "A = []")
  case True
  with assms show ?thesis by (simp add: neighbor_of_def)
next
  case False
  obtain mt g1 where c: "random_choice [''swap'', ''move'', ''add'', ''remove''] g = (mt, g1)"
    by (cases "random_choice [''swap'', ''move'', ''add'', ''remove''] g")
  consider (swap) "mt = ''swap'' \<and> length A \<ge> 2"
    | (move) "\<not> (mt = ''swap'' \<and> length A \<ge> 2)" "mt = ''move''"
    | (other) "\<not> (mt = ''swap'' \<and> length A \<ge> 2)" "mt \<noteq> ''move''"
    by blast
  then show ?thesis
  proof cases
    case swap
    with assms(2) False c have "swap_neighbor A g1 = Inr (A', g')"
      by (simp add: neighbor_of_def)
    with assms(1) show ?thesis by (rule swap_neighbor_adm)
  next
    case move
    with assms(2) False c have "move_neighbor m A g1 = Inr (A', g')"
      by (simp add: neighbor_of_def)
    with assms(1) False show ?thesis by (rule move_neighbor_adm)
  next
    case other
    with assms False c show ?thesis by (simp add: neighbor_of_def)
  qed
qed

lemma annealing_step_ok:
  assumes "annealing_ok fleet st" and "annealing_step m cooling fleet st = Inr st'"
  shows "annealing_ok fleet st'"
proof -
  from assms(2) obtain nb g1 where
    n: "neighbor_of m (current_solution st) (generator st) = Inr (nb, g1)"
    by (auto simp: annealing_step_def split: sum.splits)
  from assms(1) have "adm fleet (current_solution st)" by (simp add: annealing_ok_def)
  then have "adm fleet nb" using n by (rule neighbor_of_adm)
  with assms n show ?thesis
    by (auto simp: annealing_step_def annealing_ok_def Let_def split: sum.splits if_splits)
qed

lemma annealing_loop_ok:
  assumes "annealing_ok fleet st"
    and "annealing_loop n m cooling min_temp fleet st = Inr st'"
  shows "annealing_ok fleet st'"
  using assms
proof (induction n arbitrary: st)
  case 0
  then show ?case by simp
next
  case (Suc n)
  show ?case
  proof (cases "temperature st < min_temp")
    case True
    with Suc.prems show ?thesis by simp
  next
    case False
    with Suc.prems(2) obtain st1 where
      s: "annealing_step m cooling fleet st = Inr st1"
      and r: "annealing_loop n m cooling min_temp fleet st1 = Inr st'"
      by (auto split: sum.splits)
    from Suc.prems(1) s have "annealing_ok fleet st1" by (rule annealing_step_ok)
    then show ?thesis using r by (rule Suc.IH)
  qed
qed

lemma solve_with_simulated_annealing_adm:
  assumes "solve_with_simulated_annealing cfg g request fleet = Inr sol"
  shows "adm fleet (solution_assignments sol)"
proof -
  let ?m = "max_positions_of cfg request"
  obtain a g1 where ra: "random_assignment ?m fleet g = (a, g1)"
    by (cases "random_assignment ?m fleet g")
  from random_assignment_adm [of fleet ?m g] ra have a: "adm fleet a" by simp
  let ?st0 = "\<lparr>current_solution = a, current_score = calculate_solution_score a fleet,
                 best_solution = a, best_score = calculate_solution_score a fleet,
                 temperature = get_or (initial_temperature (parameters request)) 100.0,
                 generator = g1\<rparr>"
  from a have ok0: "annealing_ok fleet ?st0" by (simp add: annealing_ok_def)
  from assms ra obtain st where
    l: "annealing_loop (nat (get_or (max_iterations (parameters request)) 10000)) ?m
          (get_or (cooling_rate (parameters request)) 0.95)
          (get_or (min_temperature (parameters request)) 0.01) fleet ?st0 = Inr st"
    and sol: "solution_assignments sol = best_solution st"
    by (auto simp: solve_with_simulated_annealing_def Let_def split: sum.splits)
  from ok0 l have "annealing_ok fleet st" by (rule annealing_loop_ok)
  with sol show ?thesis by (simp add: annealing_ok_def)
qed


lemma eval_linear_expr_single: "eval_linear_expr v [(c, x)] = (if v x then c else 0)"
  by (simp add: eval_linear_expr_def)

lemma satisfies_build_cp_model:
  "satisfies v (build_cp_model cfg request ts) \<longleftrightarrow>
     (\<forall>t \<in> set ts. (\<Sum>j \<leftarrow> range_int (max_positions_of cfg request).
                        if v (trainset_id t, j) then 1 else 0) \<le> (1 :: int)) \<and>
     (\<forall>j \<in> set (range_int (max_positions_of cfg request)).
        (\<Sum>t \<leftarrow> ts. if v (trainset_id t, j) then 1 else 0) \<le> (1 :: int)) \<and>
     (\<forall>t \<in> set ts. \<not> fitness_valid t \<longrightarrow>
        (\<forall>j \<in> set (range_int (max_positions_of cfg request)). \<not> v (trainset_id t, j))) \<and>
     (\<forall>t \<in> set ts. has_high_priority_jobs t \<longrightarrow>
        (\<forall>j \<in> set (range_int (max_positions_of cfg request)). \<not> v (trainset_id t, j)))"
  by (simp add: satisfies_def build_cp_model_def Let_def list_all_iff ball_Un
      eval_linear_expr_map eval_linear_expr_single) blast

lemma satisfies_columns:
  assumes "satisfies v (build_cp_model cfg request ts)"
    and "j \<in> set (range_int (max_positions_of cfg request))"
  shows "(\<Sum>t \<leftarrow> ts. if v (trainset_id t, j) then 1 else 0) \<le> (1 :: int)"
  using assms by (simp add: satisfies_build_cp_model)

lemma satisfies_eligible:
  assumes "satisfies v (build_cp_model cfg request ts)"
    and "j \<in> set (range_int (max_positions_of cfg request))"
    and "t \<in> set ts" and "v (trainset_id t, j)"
  shows "eligible t"
  using assms unfolding satisfies_build_cp_model eligible_def by blast

lemma indicator_sum_nonneg: "0 \<le> (\<Sum>t \<leftarrow> ts. if P t then 1 else (0 :: int))"
  by (induction ts) auto

lemma indicator_sum_ge1:
  "t \<in> set ts \<Longrightarrow> P t \<Longrightarrow> 1 \<le> (\<Sum>t \<leftarrow> ts. if P t then 1 else (0 :: int))"
  using indicator_sum_nonneg [of P]
  by (induction ts) (auto simp: add_increasing add_increasing2)

lemma indicator_sum_le1_unique:
  assumes "(\<Sum>t \<leftarrow> ts. if P t then 1 else (0 :: int)) \<le> 1"
    and "t1 \<in> set ts" and "t2 \<in> set ts" and "P t1" and "P t2"
  shows "t1 = t2"
  using assms
proof (induction ts)
  case Nil
  then show ?case by simp
next
  case (Cons t ts)
  show ?case
  proof (cases "P t")
    case False
    with Cons show ?thesis by auto
  next
    case True
    with Cons.prems(1) have z: "(\<Sum>t \<leftarrow> ts. if P t then 1 else (0 :: int)) \<le> 0" by simp
    have "\<And>x. x \<in> set ts \<Longrightarrow> P x \<Longrightarrow> False"
      using indicator_sum_ge1 [of _ ts P] z by fastforce
    with Cons.prems(2-5) show ?thesis by auto
  qed
qed

lemma extract_step_ok:
  assumes "extracted_ok v positions fleet A" and "t \<in> set fleet"
  shows "extracted_ok v positions fleet
           (case find (\<lambda>j. v (trainset_id t, j)) positions of
              None \<Rightarrow> A
            | Some j \<Rightarrow> AList.update (trainset_id t) j A)"
proof (cases "find (\<lambda>j. v (trainset_id t, j)) positions")
  case None
  with assms(1) show ?thesis by simp
next
  case (Some j)
  then have j: "j \<in> set positions" and vj: "v (trainset_id t, j)"
    by (auto simp: find_Some_iff)
  from assms(1) have d: "distinct (map fst A)" by (simp add: extracted_ok_def)
  have "set (AList.update (trainset_id t) j A)
          = insert (trainset_id t, j) {p \<in> set A. fst p \<noteq> trainset_id t}"
    using d by (rule set_update_distinct)
  with assms j vj d Some show ?thesis
    by (auto simp: extracted_ok_def distinct_update)
qed

lemma extract_foldl_ok:
  assumes "extracted_ok v positions fleet A" and "set ts \<subseteq> set fleet"
  shows "extracted_ok v positions fleet
           (foldl (\<lambda>assignments trainset.
              case find (\<lambda>j. v (trainset_id trainset, j)) positions of
                None \<Rightarrow> assignments
              | Some j \<Rightarrow> AList.update (trainset_id trainset) j assignments) A ts)"
  using assms
proof (induction ts arbitrary: A)
  case Nil
  then show ?case by simp
next
  case (Cons t ts)
  from Cons.prems have "t \<in> set fleet" and sub: "set ts \<subseteq> set fleet" by auto
  with Cons.prems(1) have
    "extracted_ok v positions fleet
       (case find (\<lambda>j. v (trainset_id t, j)) positions of
          None \<Rightarrow> A
        | Some j \<Rightarrow> AList.update (trainset_id t) j A)"
    by (simp add: extract_step_ok)
  from Cons.IH [OF this sub] show ?case by simp
qed

lemma extract_assignments_adm:
  assumes "satisfies v (build_cp_model cfg request fleet)"
  shows "adm fleet (extract_assignments v (range_int (max_positions_of cfg request)) fleet)"
proof -
  let ?pos = "range_int (max_positions_of cfg request)"
  let ?A = "extract_assignments v ?pos fleet"
  have "extracted_ok v ?pos fleet []" by (simp add: extracted_ok_def)
  then have ok: "extracted_ok v ?pos fleet ?A"
    unfolding extract_assignments_def by (rule extract_foldl_ok) simp
  then have d: "distinct (map fst ?A)" by (simp add: extracted_ok_def)
  have el: "\<exists>t \<in> set fleet. trainset_id t = fst p \<and> eligible t" if "p \<in> set ?A" for p
  proof -
    from ok that obtain t where "snd p \<in> set ?pos" "t \<in> set fleet" "trainset_id t = fst p"
      "v (trainset_id t, snd p)"
      by (auto simp: extracted_ok_def)
    with satisfies_eligible [OF assms, of "snd p" t] show ?thesis by auto
  qed
  have "inj_on snd (set ?A)"
  proof (rule inj_onI)
    fix p q assume p: "p \<in> set ?A" and q: "q \<in> set ?A" and eq: "snd p = snd q"
    from ok p obtain t where t: "snd p \<in> set ?pos" "t \<in> set fleet" "trainset_id t = fst p"
      "v (trainset_id t, snd p)"
      by (auto simp: extracted_ok_def)
    from ok q obtain u where u: "u \<in> set fleet" "trainset_id u = fst q"
      "v (trainset_id u, snd q)"
      by (auto simp: extracted_ok_def)
    from satisfies_columns [OF assms t(1)] t(2) u(1) t(4) u(3) eq
    have "t = u"
      by (intro indicator_sum_le1_unique [of "\<lambda>t. v (trainset_id t, snd p)" fleet]) simp_all
    with t(3) u(2) have "fst p = fst q" by simp
    with eq show "p = q" by (simp add: prod_eq_iff)
  qed
  with d el show ?thesis by (simp add: adm_def)
qed

lemma solve_with_cp_sat_adm:
  assumes "cp_sat_answer_ok (build_cp_model cfg request fleet) answer"
  shows "adm fleet (solution_assignments (solve_with_cp_sat cfg answer request fleet))"
proof (cases "solver_status answer = OPTIMAL \<or> solver_status answer = FEASIBLE")
  case False
  then show ?thesis by (simp add: solve_with_cp_sat_def adm_Nil)
next
  case True
  with assms have "satisfies (solver_value answer) (build_cp_model cfg request fleet)"
    by (auto simp: cp_sat_answer_ok_def)
  then have "adm fleet (extract_assignments (solver_value answer)
      (range_int (max_positions_of cfg request)) fleet)"
    by (rule extract_assignments_adm)
  with True show ?thesis by (simp add: solve_with_cp_sat_def Let_def)
qed

text \<open>The three drivers run on the two-trainset fleet.\<close>

lemma range_int_2: "range_int 2 = [0, Suc 0]"
  by code_simp

lemma half_stream_shift: "(\<lambda>n. half_stream (Suc n)) = half_stream"
  by (simp add: half_stream_def)

lemma half_stream_random: "random_random half_stream = (1 / 2, half_stream)"
  by (simp add: random_random_def rng_draw_def half_stream_shift) (simp add: half_stream_def)

lemma half_stream_choice:
  "random_choice [x] half_stream = (x, half_stream)"
  "random_choice [x, y] half_stream = (x, half_stream)"
  "random_choice [x, y, z, w] half_stream = (x, half_stream)"
proof -
  have "(4503599627370496 :: nat) mod Suc (Suc 0) = 0" by presburger
  then show "random_choice [x] half_stream = (x, half_stream)"
    "random_choice [x, y] half_stream = (x, half_stream)"
    "random_choice [x, y, z, w] half_stream = (x, half_stream)"
    by (simp_all add: random_choice_def rng_draw_def half_stream_shift)
       (simp_all add: half_stream_def)
qed

lemma half_stream_choice2:
  "random_choice2 [x, y] half_stream = ((x, y), half_stream)"
proof -
  have "(4503599627370496 :: nat) mod Suc (Suc 0) = 0" by presburger
  then show ?thesis
    by (simp add: random_choice2_def rng_draw_def half_stream_shift) (simp add: half_stream_def)
qed

lemma half_stream_randint: "random_randint 2 half_stream = Inr (0, half_stream)"
  by (simp add: random_randint_def rng_draw_def half_stream_shift) (simp add: half_stream_def)

lemma two_fleet_random_assignment:
  "random_assignment 2 two_fleet half_stream = ([(''TS001'', 0), (''TS002'', Suc 0)], half_stream)"
  by (simp add: random_assignment_def two_fleet_def scenario_trainset_def range_int_2
      half_stream_random half_stream_choice)

lemma two_fleet_initial_population:
  "initial_population n 2 two_fleet half_stream
     = (replicate n [(''TS001'', 0), (''TS002'', Suc 0)], half_stream)"
  by (induction n) (simp_all add: two_fleet_random_assignment)

lemma two_fleet_score:
  "calculate_solution_score [(''TS001'', 0), (''TS002'', Suc 0)] two_fleet = 530"
  "calculate_solution_score [(''TS001'', Suc 0), (''TS002'', 0)] two_fleet = 530"
  unfolding two_fleet_def by code_simp+

lemma two_fleet_evaluate_population:
  "evaluate_population two_fleet (replicate n [(''TS001'', 0), (''TS002'', Suc 0)]) scored
       (Some ([(''TS001'', 0), (''TS002'', Suc 0)], 530))
     = (scored @ replicate n ([(''TS001'', 0), (''TS002'', Suc 0)], 530),
        Some ([(''TS001'', 0), (''TS002'', Suc 0)], 530))"
  by (induction n arbitrary: scored)
     (simp_all add: two_fleet_score improves_def replicate_app_Cons_same)

lemma two_fleet_evaluate_population_first:
  "0 < n \<Longrightarrow>
   evaluate_population two_fleet (replicate n [(''TS001'', 0), (''TS002'', Suc 0)]) [] None
     = (replicate n ([(''TS001'', 0), (''TS002'', Suc 0)], 530),
        Some ([(''TS001'', 0), (''TS002'', Suc 0)], 530))"
  by (cases n) (simp_all add: two_fleet_score improves_def two_fleet_evaluate_population)

lemma insort_key_replicate: "insort_key f x (replicate n x) = replicate (Suc n) x"
  by (cases n) simp_all

lemma sort_key_replicate: "sort_key f (replicate n x) = replicate n x"
proof (induction n)
  case 0
  show ?case by simp
next
  case (Suc n)
  have "sort_key f (replicate (Suc n) x) = insort_key f x (sort_key f (replicate n x))"
    by simp
  also have "\<dots> = insort_key f x (replicate n x)" by (simp only: Suc.IH)
  also have "\<dots> = replicate (Suc n) x" by (rule insort_key_replicate)
  finally show ?case .
qed

lemma two_fleet_make_child:
  "make_child (\<lambda>xs. xs) (1 / 10) 2 [(''TS001'', 0), (''TS002'', Suc 0)]
     [(''TS001'', 0), (''TS002'', Suc 0)] half_stream
   = ([(''TS001'', 0), (''TS002'', Suc 0)], half_stream)"
  by (simp add: make_child_def crossover_step_def take_position_def mutate_def half_stream_random)

lemma two_fleet_offspring_loop:
  "length newpop + k = 10 \<Longrightarrow>
   offspring_loop (\<lambda>xs. xs) (1 / 10) 2 10 1
     (replicate 10 ([(''TS001'', 0), (''TS002'', Suc 0)], 530)) newpop half_stream
   = Inr (newpop @ replicate k [(''TS001'', 0), (''TS002'', Suc 0)], half_stream)"
proof (induction k arbitrary: newpop)
  case 0
  then show ?case by (simp add: offspring_loop.simps)
next
  case (Suc k)
  from Suc.prems have "length (newpop @ [[(''TS001'', 0), (''TS002'', Suc 0)]]) + k = 10" by simp
  from Suc.IH [OF this] Suc.prems show ?case
    by (subst offspring_loop.simps)
       (simp add: half_stream_randint two_fleet_make_child)
qed

lemma replicate_10: "x # replicate 9 x = replicate 10 x"
proof -
  have "(10 :: nat) = Suc 9" by simp
  then have "replicate 10 x = replicate (Suc 9) x" by (simp only:)
  also have "\<dots> = x # replicate 9 x" by (rule replicate.simps(2))
  finally show ?thesis by (rule sym)
qed

lemma two_fleet_generation_step:
  assumes "best = None \<or> best = Some ([(''TS001'', 0), (''TS002'', Suc 0)], 530)"
  shows "generation_loop (Suc n) (\<lambda>xs. xs) (1 / 10) 2 10 two_fleet
           (replicate 10 [(''TS001'', 0), (''TS002'', Suc 0)]) best half_stream
         = generation_loop n (\<lambda>xs. xs) (1 / 10) 2 10 two_fleet
           (replicate 10 [(''TS001'', 0), (''TS002'', Suc 0)])
           (Some ([(''TS001'', 0), (''TS002'', Suc 0)], 530)) half_stream"
proof -
  have e: "evaluate_population two_fleet (replicate 10 [(''TS001'', 0), (''TS002'', Suc 0)]) [] best
    = (replicate 10 ([(''TS001'', 0), (''TS002'', Suc 0)], 530),
       Some ([(''TS001'', 0), (''TS002'', Suc 0)], 530))"
    using assms two_fleet_evaluate_population_first [of 10]
      two_fleet_evaluate_population [of 10 "[]"]
    by auto
  have t: "take (Suc 0) (replicate 10 ([(''TS001'', 0), (''TS002'', Suc 0)], 530 :: real))
             = [([(''TS001'', 0), (''TS002'', Suc 0)], 530)]"
    by simp
  have o: "offspring_loop (\<lambda>xs. xs) (1 / 10) 2 10 1
     (replicate 10 ([(''TS001'', 0), (''TS002'', Suc 0)], 530))
     [[(''TS001'', 0), (''TS002'', Suc 0)]] half_stream
   = Inr (replicate 10 [(''TS001'', 0), (''TS002'', Suc 0)], half_stream)"
    using two_fleet_offspring_loop [of "[[(''TS001'', 0), (''TS002'', Suc 0)]]" 9]
    by (simp add: replicate_10)
  show ?thesis
    by (simp add: e sort_key_replicate py_slice_to_def t o)
qed

lemma two_fleet_generation_loop:
  "generation_loop n (\<lambda>xs. xs) (1 / 10) 2 10 two_fleet
     (replicate 10 [(''TS001'', 0), (''TS002'', Suc 0)])
     (Some ([(''TS001'', 0), (''TS002'', Suc 0)], 530)) half_stream
   = Inr (Some ([(''TS001'', 0), (''TS002'', Suc 0)], 530))"
  by (induction n) (simp_all add: two_fleet_generation_step del: generation_loop.simps(2))

lemma genetic_small_run:
  "solve_with_genetic_algorithm default_settings (\<lambda>xs. xs) half_stream small_run_request
     two_fleet =
   Inr \<lparr>solution_assignments = [(''TS001'', 0), (''TS002'', 1)], solution_score = 530,
        solution_violations = NoViolations, algorithm_used = ''genetic_algorithm''\<rparr>"
proof -
  have "generation_loop (Suc (Suc 0)) (\<lambda>xs. xs) (1 / 10) 2 10 two_fleet
     (replicate 10 [(''TS001'', 0), (''TS002'', Suc 0)]) None half_stream
     = Inr (Some ([(''TS001'', 0), (''TS002'', Suc 0)], 530))"
    by (simp add: two_fleet_generation_step two_fleet_generation_loop
        del: generation_loop.simps(2))
  then show ?thesis
    by (simp add: solve_with_genetic_algorithm_def small_run_request_def no_parameters_def
        get_or_def max_positions_of_def default_settings_def two_fleet_initial_population
        numeral_2_eq_2 del: generation_loop.simps(2))
qed

lemma annealing_small_run:
  "solve_with_simulated_annealing default_settings half_stream small_run_request two_fleet =
   Inr \<lparr>solution_assignments = [(''TS001'', 0), (''TS002'', 1)], solution_score = 530,
        solution_violations = NoViolations, algorithm_used = ''simulated_annealing''\<rparr>"
proof -
  have nb: "neighbor_of 2 [(''TS001'', 0), (''TS002'', Suc 0)] half_stream
              = Inr ([(''TS001'', Suc 0), (''TS002'', 0)], half_stream)"
    by (simp add: neighbor_of_def swap_neighbor_def half_stream_choice half_stream_choice2
        dict_get_def)
  have acc: "accept_neighbor b 0 100 half_stream = Inr (True, half_stream)" for b
    by (simp add: accept_neighbor_def half_stream_random)
  show ?thesis
    by (simp add: solve_with_simulated_annealing_def max_positions_of_def small_run_request_def
        default_settings_def two_fleet_random_assignment two_fleet_score get_or_def
        no_parameters_def annealing_step_def nb acc)
qed

lemma optimal_answer_ok_two:
  "cp_sat_answer_ok (build_cp_model default_settings small_run_request two_fleet)
     two_fleet_answer"
proof -
  let ?m = "build_cp_model default_settings small_run_request two_fleet"
  have mp: "max_positions_of default_settings small_run_request = 2"
    by (simp add: max_positions_of_def default_settings_def small_run_request_def)
  have sat: "satisfies (solver_value two_fleet_answer) ?m"
    by (simp add: satisfies_build_cp_model mp range_int_2 two_fleet_def scenario_trainset_def
        two_fleet_answer_def optimal_answer_def valuation_of_assignment_def)
  have obj: "objective_value ?m (solver_value two_fleet_answer) = 359"
    by (simp add: objective_value_build_cp_model mp range_int_2 two_fleet_def
        scenario_trainset_def two_fleet_answer_def optimal_answer_def valuation_of_assignment_def
        objective_coefficient_def py_int_def)
  have "objective_value ?m v \<le> 359" if "satisfies v ?m" for v
    using that
    by (simp add: satisfies_build_cp_model objective_value_build_cp_model mp range_int_2
        two_fleet_def scenario_trainset_def objective_coefficient_def py_int_def
        split: if_splits)
  with sat obj show ?thesis by (simp add: cp_sat_answer_ok_def)
qed

text \<open>
  Claim C1, as stated, fails: no driver reads the operational status. For a fleet of one
  trainset in maintenance (fitness valid, no job card) and one position, the solver's
  optimal answer assigns it, and the exact driver returns that assignment.
\<close>

theorem driver_ignores_status_counterexample:
  "cp_sat_answer_ok
     (build_cp_model default_settings (scenario_request ''constraint_programming'' 1)
        maintenance_fleet) one_fleet_answer \<and>
   solution_assignments
     (solve_with_cp_sat default_settings one_fleet_answer
        (scenario_request ''constraint_programming'' 1) maintenance_fleet)
     = [(''TS001'', 0)] \<and>
   map status maintenance_fleet = [MAINTENANCE]"
proof -
  let ?r = "scenario_request ''constraint_programming'' 1"
  let ?m = "build_cp_model default_settings ?r maintenance_fleet"
  have mp: "max_positions_of default_settings ?r = 1"
    by (simp add: max_positions_of_def default_settings_def scenario_request_def)
  have r1: "range_int 1 = [0]" by code_simp
  have sat: "satisfies (solver_value one_fleet_answer) ?m"
    by (simp add: satisfies_build_cp_model mp r1 maintenance_fleet_def scenario_trainset_def
        one_fleet_answer_def optimal_answer_def valuation_of_assignment_def)
  have obj: "objective_value ?m (solver_value one_fleet_answer) = 180"
    by (simp add: objective_value_build_cp_model mp r1 maintenance_fleet_def
        scenario_trainset_def one_fleet_answer_def optimal_answer_def valuation_of_assignment_def
        objective_coefficient_def py_int_def)
  have "objective_value ?m v \<le> 180" for v
    by (simp add: objective_value_build_cp_model mp r1 maintenance_fleet_def
        scenario_trainset_def objective_coefficient_def py_int_def)
  with sat obj have "cp_sat_answer_ok ?m one_fleet_answer"
    by (simp add: cp_sat_answer_ok_def)
  moreover have "solution_assignments
      (solve_with_cp_sat default_settings one_fleet_answer ?r maintenance_fleet)
      = [(''TS001'', 0)]"
    by (simp add: solve_with_cp_sat_def Let_def mp r1 extract_assignments_def
        maintenance_fleet_def scenario_trainset_def one_fleet_answer_def optimal_answer_def
        valuation_of_assignment_def)
  moreover have "map status maintenance_fleet = [MAINTENANCE]"
    by (simp add: maintenance_fleet_def scenario_trainset_def)
  ultimately show ?thesis by simp
qed

text \<open>
  Claim C1, amended. Every assignment returned by any of the three drivers is injective
  (no two trainsets on one position, no trainset twice), and every id in its domain is
  the id of a trainset of the fleet whose fitness certificate is valid and which has no
  open high-priority work order. The operational status is not part of what the drivers
  enforce. For the exact driver this holds whenever the solver's answer keeps the
  solver's promise; for the other two, for every random stream and iteration order.
\<close>

theorem drivers_return_admissible:
  "(cp_sat_answer_ok (build_cp_model cfg request trainsets) answer \<longrightarrow>
      admissible trainsets
        (solution_assignments (solve_with_cp_sat cfg answer request trainsets))) \<and>
   (\<forall>solution. solve_with_genetic_algorithm cfg set_order g request trainsets = Inr solution
      \<longrightarrow> admissible trainsets (solution_assignments solution)) \<and>
   (\<forall>solution. solve_with_simulated_annealing cfg g request trainsets = Inr solution
      \<longrightarrow> admissible trainsets (solution_assignments solution))"
  by (simp add: admissible_adm solve_with_cp_sat_adm solve_with_genetic_algorithm_adm
      solve_with_simulated_annealing_adm)

theorem drivers_return_admissible_witness:
  "cp_sat_answer_ok (build_cp_model default_settings small_run_request two_fleet)
     two_fleet_answer \<and>
   admissible two_fleet
     (solution_assignments
        (solve_with_cp_sat default_settings two_fleet_answer small_run_request two_fleet)) \<and>
   solve_with_genetic_algorithm default_settings (\<lambda>xs. xs) half_stream small_run_request
     two_fleet =
     Inr \<lparr>solution_assignments = [(''TS001'', 0), (''TS002'', 1)], solution_score = 530,
          solution_violations = NoViolations, algorithm_used = ''genetic_algorithm''\<rparr> \<and>
   solve_with_simulated_annealing default_settings half_stream small_run_request two_fleet =
     Inr \<lparr>solution_assignments = [(''TS001'', 0), (''TS002'', 1)], solution_score = 530,
          solution_violations = NoViolations, algorithm_used = ''simulated_annealing''\<rparr> \<and>
   admissible two_fleet [(''TS001'', 0), (''TS002'', 1)]"
  using drivers_return_admissible
    [of default_settings small_run_request two_fleet two_fleet_answer "\<lambda>xs. xs" half_stream]
    optimal_answer_ok_two genetic_small_run annealing_small_run
  by simp

section \<open>The exact driver on scenario 2\<close>

lemma range_int_3: "range_int 3 = [0, Suc 0, Suc (Suc 0)]"
  by code_simp

lemma three_max_positions:
  "max_positions_of default_settings (scenario_request ''constraint_programming'' 3) = 3"
  by (simp add: max_positions_of_def default_settings_def scenario_request_def)

lemma three_fleet_satisfies:
  "satisfies v (build_cp_model default_settings (scenario_request ''constraint_programming'' 3) three_fleet)
   \<longleftrightarrow>
   (if v (''TS001'', 0) then 1 else 0) + ((if v (''TS001'', Suc 0) then 1 else 0) + (if v (''TS001'', Suc (Suc 0)) then 1 else 0)) \<le> (1::int) \<and>
   (if v (''TS002'', 0) then 1 else 0) + ((if v (''TS002'', Suc 0) then 1 else 0) + (if v (''TS002'', Suc (Suc 0)) then 1 else 0)) \<le> (1::int) \<and>
   (if v (''TS003'', 0) then 1 else 0) + ((if v (''TS003'', Suc 0) then 1 else 0) + (if v (''TS003'', Suc (Suc 0)) then 1 else 0)) \<le> (1::int) \<and>
   (if v (''TS001'', 0) then 1 else 0) + ((if v (''TS002'', 0) then 1 else 0) + (if v (''TS003'', 0) then 1 else 0)) \<le> (1::int) \<and>
   (if v (''TS001'', Suc 0) then 1 else 0) + ((if v (''TS002'', Suc 0) then 1 else 0) + (if v (''TS003'', Suc 0) then 1 else 0)) \<le> (1::int) \<and>
   (if v (''TS001'', Suc (Suc 0)) then 1 else 0) + ((if v (''TS002'', Suc (Suc 0)) then 1 else 0) + (if v (''TS003'', Suc (Suc 0)) then 1 else 0)) \<le> (1::int)"
  by (simp add: satisfies_build_cp_model three_max_positions range_int_3 three_fleet_def
      scenario_trainset_def)

lemma three_fleet_objective:
  "objective_value (build_cp_model default_settings (scenario_request ''constraint_programming'' 3) three_fleet) v
   = (if v (''TS001'', 0) then 180 else 0) + ((if v (''TS001'', Suc 0) then 179 else 0) + (if v (''TS001'', Suc (Suc 0)) then 178 else 0))
   + ((if v (''TS002'', 0) then 180 else 0) + ((if v (''TS002'', Suc 0) then 179 else 0) + (if v (''TS002'', Suc (Suc 0)) then 178 else 0))
   + ((if v (''TS003'', 0) then 180 else 0) + ((if v (''TS003'', Suc 0) then 179 else 0) + (if v (''TS003'', Suc (Suc 0)) then 178 else 0))))"
  by (simp add: objective_value_build_cp_model three_max_positions range_int_3 three_fleet_def
      scenario_trainset_def objective_coefficient_def py_int_def)


lemma at_most_one_of_three:
  "(if a then 1 else 0) + ((if b then 1 else 0) + (if c then 1 else 0)) \<le> (1 :: int)
     \<longleftrightarrow> \<not> (a \<and> b) \<and> \<not> (a \<and> c) \<and> \<not> (b \<and> c)"
  by auto

lemma row_value_le:
  "\<not> (p \<and> q) \<Longrightarrow> \<not> (p \<and> r) \<Longrightarrow> \<not> (q \<and> r) \<Longrightarrow>
   (if p then 180 else 0) + ((if q then 179 else 0) + (if r then 178 else 0)) \<le> (180 :: int)"
  by auto

lemma three_fleet_extract:
  assumes "satisfies v (build_cp_model default_settings (scenario_request ''constraint_programming'' 3) three_fleet)"
    and "537 \<le> objective_value (build_cp_model default_settings (scenario_request ''constraint_programming'' 3) three_fleet) v"
  shows "extract_assignments v [0, Suc 0, Suc (Suc 0)] three_fleet \<in>
    {[(''TS001'', 0), (''TS002'', Suc 0), (''TS003'', Suc (Suc 0))],
     [(''TS001'', 0), (''TS002'', Suc (Suc 0)), (''TS003'', Suc 0)],
     [(''TS001'', Suc 0), (''TS002'', 0), (''TS003'', Suc (Suc 0))],
     [(''TS001'', Suc 0), (''TS002'', Suc (Suc 0)), (''TS003'', 0)],
     [(''TS001'', Suc (Suc 0)), (''TS002'', 0), (''TS003'', Suc 0)],
     [(''TS001'', Suc (Suc 0)), (''TS002'', Suc 0), (''TS003'', 0)]}"
proof -
  let ?a0 = "v (''TS001'', 0)" and ?a1 = "v (''TS001'', Suc 0)" and ?a2 = "v (''TS001'', Suc (Suc 0))"
  let ?b0 = "v (''TS002'', 0)" and ?b1 = "v (''TS002'', Suc 0)" and ?b2 = "v (''TS002'', Suc (Suc 0))"
  let ?c0 = "v (''TS003'', 0)" and ?c1 = "v (''TS003'', Suc 0)" and ?c2 = "v (''TS003'', Suc (Suc 0))"
  from assms(1) have rows:
    "\<not> (?a0 \<and> ?a1)" "\<not> (?a0 \<and> ?a2)" "\<not> (?a1 \<and> ?a2)"
    "\<not> (?b0 \<and> ?b1)" "\<not> (?b0 \<and> ?b2)" "\<not> (?b1 \<and> ?b2)"
    "\<not> (?c0 \<and> ?c1)" "\<not> (?c0 \<and> ?c2)" "\<not> (?c1 \<and> ?c2)"
    and cols:
    "\<not> (?a0 \<and> ?b0)" "\<not> (?a0 \<and> ?c0)" "\<not> (?b0 \<and> ?c0)"
    "\<not> (?a1 \<and> ?b1)" "\<not> (?a1 \<and> ?c1)" "\<not> (?b1 \<and> ?c1)"
    "\<not> (?a2 \<and> ?b2)" "\<not> (?a2 \<and> ?c2)" "\<not> (?b2 \<and> ?c2)"
    unfolding three_fleet_satisfies at_most_one_of_three by blast+
  from assms(2) have obj: "537 \<le>
     (if ?a0 then 180 else 0) + ((if ?a1 then 179 else 0) + (if ?a2 then 178 else 0))
   + ((if ?b0 then 180 else 0) + ((if ?b1 then 179 else 0) + (if ?b2 then 178 else (0::int)))
   + ((if ?c0 then 180 else 0) + ((if ?c1 then 179 else 0) + (if ?c2 then 178 else 0))))"
    unfolding three_fleet_objective .
  have va: "(if ?a0 then 180 else 0) + ((if ?a1 then 179 else 0) + (if ?a2 then 178 else 0))
              \<le> (180 :: int)"
    and vb: "(if ?b0 then 180 else 0) + ((if ?b1 then 179 else 0) + (if ?b2 then 178 else 0))
              \<le> (180 :: int)"
    and vc: "(if ?c0 then 180 else 0) + ((if ?c1 then 179 else 0) + (if ?c2 then 178 else 0))
              \<le> (180 :: int)"
    using rows by (blast intro: row_value_le)+
  have ra: "?a0 \<or> ?a1 \<or> ?a2"
  proof (rule ccontr)
    assume "\<not> (?a0 \<or> ?a1 \<or> ?a2)"
    then have "(if ?a0 then 180 else 0) + ((if ?a1 then 179 else 0) + (if ?a2 then 178 else 0))
              = (0 :: int)" by simp
    with obj vb vc show False by linarith
  qed
  have rb: "?b0 \<or> ?b1 \<or> ?b2"
  proof (rule ccontr)
    assume "\<not> (?b0 \<or> ?b1 \<or> ?b2)"
    then have "(if ?b0 then 180 else 0) + ((if ?b1 then 179 else 0) + (if ?b2 then 178 else 0))
              = (0 :: int)" by simp
    with obj va vc show False by linarith
  qed
  have rc: "?c0 \<or> ?c1 \<or> ?c2"
  proof (rule ccontr)
    assume "\<not> (?c0 \<or> ?c1 \<or> ?c2)"
    then have "(if ?c0 then 180 else 0) + ((if ?c1 then 179 else 0) + (if ?c2 then 178 else 0))
              = (0 :: int)" by simp
    with obj va vb show False by linarith
  qed
  have ex: "extract_assignments v [0, Suc 0, Suc (Suc 0)] three_fleet =
     [(''TS001'', if ?a0 then 0 else if ?a1 then Suc 0 else Suc (Suc 0)),
      (''TS002'', if ?b0 then 0 else if ?b1 then Suc 0 else Suc (Suc 0)),
      (''TS003'', if ?c0 then 0 else if ?c1 then Suc 0 else Suc (Suc 0))]"
    using ra rb rc
    by (auto simp: extract_assignments_def three_fleet_def scenario_trainset_def)
  show ?thesis unfolding ex using rows cols ra rb rc by auto
qed

lemma three_fleet_score:
  "calculate_solution_score [(''TS001'', ja), (''TS002'', jb), (''TS003'', jc)] three_fleet
     = 648 + real_of_int (max 0 (50 - int ja * 2) + max 0 (50 - int jb * 2) + max 0 (50 - int jc * 2))"
  by (simp add: calculate_solution_score_def trainset_dict_def three_fleet_def
      scenario_trainset_def score_of_pair_def mean_def mileage_balance_weight_def
      branding_priority_weight_def)


lemma three_fleet_objective_le:
  assumes "satisfies v (build_cp_model default_settings
             (scenario_request ''constraint_programming'' 3) three_fleet)"
  shows "objective_value (build_cp_model default_settings
           (scenario_request ''constraint_programming'' 3) three_fleet) v \<le> 537"
proof -
  define x where "x = (\<lambda>p. if v p then 1 else 0 :: int)"
  have m: "(if v p then c else 0) = c * x p" for p and c :: int
    by (simp add: x_def)
  from assms have
    "x (''TS001'', 0) + (x (''TS002'', 0) + x (''TS003'', 0)) \<le> 1"
    "x (''TS001'', Suc 0) + (x (''TS002'', Suc 0) + x (''TS003'', Suc 0)) \<le> 1"
    "x (''TS001'', Suc (Suc 0)) + (x (''TS002'', Suc (Suc 0)) + x (''TS003'', Suc (Suc 0))) \<le> 1"
    unfolding three_fleet_satisfies x_def by simp_all
  then show ?thesis unfolding three_fleet_objective m by linarith
qed

lemma optimal_answer_ok_three:
  "cp_sat_answer_ok
     (build_cp_model default_settings (scenario_request ''constraint_programming'' 3) three_fleet)
     three_fleet_answer"
proof -
  have "satisfies (solver_value three_fleet_answer)
     (build_cp_model default_settings (scenario_request ''constraint_programming'' 3) three_fleet)"
    unfolding three_fleet_satisfies
    by (simp add: three_fleet_answer_def optimal_answer_def valuation_of_assignment_def)
  moreover have "objective_value
     (build_cp_model default_settings (scenario_request ''constraint_programming'' 3) three_fleet)
     (solver_value three_fleet_answer) = 537"
    unfolding three_fleet_objective
    by (simp add: three_fleet_answer_def optimal_answer_def valuation_of_assignment_def)
  ultimately show ?thesis
    by (simp add: cp_sat_answer_ok_def three_fleet_objective_le)
qed

text \<open>
  Claim C4, as stated, fails in its score: for the three scenario trainsets and three
  positions, with the solver's optimal answer TS001, TS002, TS003 on positions 0, 1, 2,
  the exact driver returns a total score of 792, not 810. Each pair scores
  216 (100, plus 50, plus 0.6 times 100, plus 0.3 times 20) plus its position term (50, 48, 46).
\<close>

theorem exact_driver_score_counterexample:
  "cp_sat_answer_ok
     (build_cp_model default_settings (scenario_request ''constraint_programming'' 3)
        three_fleet) three_fleet_answer \<and>
   solution_assignments
     (solve_with_cp_sat default_settings three_fleet_answer
        (scenario_request ''constraint_programming'' 3) three_fleet)
     = [(''TS001'', 0), (''TS002'', 1), (''TS003'', 2)] \<and>
   solution_score
     (solve_with_cp_sat default_settings three_fleet_answer
        (scenario_request ''constraint_programming'' 3) three_fleet) = 792"
proof -
  have "solve_with_cp_sat default_settings three_fleet_answer
      (scenario_request ''constraint_programming'' 3) three_fleet
    = \<lparr>solution_assignments = [(''TS001'', 0), (''TS002'', Suc 0), (''TS003'', Suc (Suc 0))],
       solution_score =
         calculate_solution_score
           [(''TS001'', 0), (''TS002'', Suc 0), (''TS003'', Suc (Suc 0))] three_fleet,
       solution_violations = NoViolations, algorithm_used = ''constraint_programming''\<rparr>"
    by (simp add: solve_with_cp_sat_def Let_def three_max_positions range_int_3
        extract_assignments_def three_fleet_def scenario_trainset_def three_fleet_answer_def optimal_answer_def
        valuation_of_assignment_def)
  then show ?thesis
    by (simp add: optimal_answer_ok_three three_fleet_score eval_nat_numeral)
qed

text \<open>
  Claim C4, amended. Given the three scenario trainsets and three positions, whenever the
  solver reports an optimal answer, the exact driver assigns all three trainsets, to
  exactly the positions 0, 1 and 2, and the total score of the returned assignment is
  792.
\<close>

theorem exact_driver_tie_break:
  assumes "cp_sat_answer_ok
      (build_cp_model default_settings (scenario_request ''constraint_programming'' 3)
         three_fleet) answer"
    and "solver_status answer = OPTIMAL"
  shows "map fst (solution_assignments
           (solve_with_cp_sat default_settings answer
              (scenario_request ''constraint_programming'' 3) three_fleet))
           = [''TS001'', ''TS002'', ''TS003''] \<and>
         set (map snd (solution_assignments
           (solve_with_cp_sat default_settings answer
              (scenario_request ''constraint_programming'' 3) three_fleet))) = {0, 1, 2} \<and>
         solution_score
           (solve_with_cp_sat default_settings answer
              (scenario_request ''constraint_programming'' 3) three_fleet) = 792"
proof -
  let ?m = "build_cp_model default_settings (scenario_request ''constraint_programming'' 3)
              three_fleet"
  let ?v = "solver_value answer"
  let ?A = "extract_assignments ?v [0, Suc 0, Suc (Suc 0)] three_fleet"
  from assms have sat: "satisfies ?v ?m"
    and best: "\<And>w. satisfies w ?m \<Longrightarrow> objective_value ?m w \<le> objective_value ?m ?v"
    by (simp_all add: cp_sat_answer_ok_def)
  have d: "satisfies (solver_value three_fleet_answer) ?m"
    and "objective_value ?m (solver_value three_fleet_answer) = 537"
    unfolding three_fleet_satisfies three_fleet_objective
    by (simp_all add: three_fleet_answer_def optimal_answer_def valuation_of_assignment_def)
  with best [OF d] have "537 \<le> objective_value ?m ?v" by simp
  with sat have cases: "?A \<in>
    {[(''TS001'', 0), (''TS002'', Suc 0), (''TS003'', Suc (Suc 0))],
     [(''TS001'', 0), (''TS002'', Suc (Suc 0)), (''TS003'', Suc 0)],
     [(''TS001'', Suc 0), (''TS002'', 0), (''TS003'', Suc (Suc 0))],
     [(''TS001'', Suc 0), (''TS002'', Suc (Suc 0)), (''TS003'', 0)],
     [(''TS001'', Suc (Suc 0)), (''TS002'', 0), (''TS003'', Suc 0)],
     [(''TS001'', Suc (Suc 0)), (''TS002'', Suc 0), (''TS003'', 0)]}"
    by (rule three_fleet_extract)
  have sol: "solve_with_cp_sat default_settings answer
      (scenario_request ''constraint_programming'' 3) three_fleet
    = \<lparr>solution_assignments = ?A, solution_score = calculate_solution_score ?A three_fleet,
       solution_violations = NoViolations, algorithm_used = ''constraint_programming''\<rparr>"
    using assms(2)
    by (simp add: solve_with_cp_sat_def Let_def three_max_positions range_int_3)
  from cases show ?thesis unfolding sol
    by (auto simp: three_fleet_score eval_nat_numeral)
qed

theorem exact_driver_tie_break_witness:
  "cp_sat_answer_ok
     (build_cp_model default_settings (scenario_request ''constraint_programming'' 3)
        three_fleet) three_fleet_answer \<and>
   solver_status three_fleet_answer = OPTIMAL \<and>
   map fst (solution_assignments
     (solve_with_cp_sat default_settings three_fleet_answer
        (scenario_request ''constraint_programming'' 3) three_fleet))
     = [''TS001'', ''TS002'', ''TS003''] \<and>
   set (map snd (solution_assignments
     (solve_with_cp_sat default_settings three_fleet_answer
        (scenario_request ''constraint_programming'' 3) three_fleet))) = {0, 1, 2} \<and>
   solution_score
     (solve_with_cp_sat default_settings three_fleet_answer
        (scenario_request ''constraint_programming'' 3) three_fleet) = 792"
proof -
  have s: "solver_status three_fleet_answer = OPTIMAL"
    by (simp add: three_fleet_answer_def optimal_answer_def)
  from exact_driver_tie_break [OF optimal_answer_ok_three s] optimal_answer_ok_three s
  show ?thesis by simp
qed

section \<open>Properties of the entry point\<close>

text \<open>
  Claim C8 describes what the code attempts and misses. With an empty fleet the validation
  raises \<^verbatim>\<open>ValueError\<close>, and \<^verbatim>\<open>optimize_schedule\<close> ends in an \<^verbatim>\<open>UnboundLocalError\<close> raised
  by its own \<^verbatim>\<open>except\<close> clause: the caller receives neither the validation error nor a
  result that reports it.
\<close>

theorem empty_fleet_raises_unbound_local:
  "validate_input default_settings (scenario_request ''constraint_programming'' 3) []
     = Inl (ValueError ''No trainsets provided for optimization'') \<and>
   optimize_schedule default_settings env (scenario_request ''constraint_programming'' 3) []
     = Inl (UnboundLocalError ''algorithm'')"
  by (simp add: validate_input_def optimize_schedule_def)

lemma invalid_input_raises_unbound_local:
  assumes "trainsets = [] \<or> max_trainsets request \<le> 0
           \<or> max_trainsets request > MAX_STABLING_POSITIONS cfg"
  shows "optimize_schedule cfg env request trainsets = Inl (UnboundLocalError ''algorithm'')"
proof -
  from assms have "\<exists>msg. validate_input cfg request trainsets = Inl (ValueError msg)"
    by (auto simp: validate_input_def)
  then show ?thesis by (auto simp: optimize_schedule_def)
qed

text \<open>
  Claim C10. Whenever \<^verbatim>\<open>optimize_schedule\<close> returns a result, its status is completed if
  and only if its score is strictly positive, and failed otherwise: a run whose best
  solution scores 0 is reported as failed whatever the reason.
\<close>

theorem status_completed_iff_positive_score:
  assumes "optimize_schedule cfg env request trainsets = Inr result"
  shows "(result_status result = COMPLETED \<longleftrightarrow> result_score result > 0) \<and>
         (result_status result = FAILED \<longleftrightarrow> \<not> result_score result > 0)"
  using assms
  by (auto simp: optimize_schedule_def Let_def split: sum.splits if_splits)

text \<open>
  The run of the second half of the claim: one trainset without a valid fitness
  certificate. The solver's optimal answer assigns nothing; no constraint is violated and
  no exception is raised; the empty assignment scores 0 and the result is reported as
  failed.
\<close>

theorem status_completed_iff_positive_score_witness:
  "cp_sat_answer_ok
     (build_cp_model default_settings (scenario_request ''constraint_programming'' 1)
        unfit_fleet)
     (cp_sat_solver nothing_assigned
        (build_cp_model default_settings (scenario_request ''constraint_programming'' 1)
           unfit_fleet)) \<and>
   optimize_schedule default_settings nothing_assigned
     (scenario_request ''constraint_programming'' 1) unfit_fleet =
     Inr \<lparr>result_optimization_id = ''OPT-1'', result_algorithm = ''constraint_programming'',
          result_score = 0, result_assignments = [], result_violations = NoViolations,
          result_error = None, result_status = FAILED\<rparr>"
proof -
  let ?r = "scenario_request ''constraint_programming'' 1"
  let ?m = "build_cp_model default_settings ?r unfit_fleet"
  have mp: "max_positions_of default_settings ?r = 1"
    by (simp add: max_positions_of_def default_settings_def scenario_request_def)
  have r1: "range_int 1 = [0]" by code_simp
  have ok: "cp_sat_answer_ok ?m (cp_sat_solver nothing_assigned ?m)"
    by (simp add: cp_sat_answer_ok_def nothing_assigned_def satisfies_build_cp_model
        objective_value_build_cp_model mp r1 unfit_fleet_def scenario_trainset_def)
  have run: "optimize_schedule default_settings nothing_assigned ?r unfit_fleet =
     Inr \<lparr>result_optimization_id = ''OPT-1'', result_algorithm = ''constraint_programming'',
          result_score = 0, result_assignments = [], result_violations = NoViolations,
          result_error = None, result_status = FAILED\<rparr>"
    by (simp add: optimize_schedule_def validate_input_def run_algorithm_def Let_def
        solve_with_cp_sat_def nothing_assigned_def extract_assignments_def
        max_positions_of_def r1
        unfit_fleet_def scenario_trainset_def scenario_request_def default_settings_def
        calculate_solution_score_def)
  from status_completed_iff_positive_score [OF run] ok run show ?thesis by simp
qed

section \<open>Properties of the decision engine's evaluators\<close>

lemma evaluate_emergency_situations_emits:
  assumes "trainset \<in> set trainsets"
    and "row_fitness_expiry_date trainset = Some expiry"
    and "expiry \<le> date_of current_time"
    and "row_status trainset \<noteq> ''OUT_OF_ORDER''"
  shows "\<exists>c. emergency_decision c trainset current_time
           \<in> set (fst (evaluate_emergency_situations counter trainsets current_time))"
  using assms
proof (induction trainsets arbitrary: counter)
  case Nil
  then show ?case by simp
next
  case (Cons t ts)
  show ?case
  proof (cases "t = trainset")
    case True
    with Cons.prems show ?thesis
      by (auto simp: Let_def split: prod.split)
  next
    case False
    with Cons.prems have "trainset \<in> set ts" by simp
    then have IH: "\<exists>c. emergency_decision c trainset current_time
        \<in> set (fst (evaluate_emergency_situations n ts current_time))" for n
      using Cons.IH Cons.prems(2-4) by blast
    show ?thesis
    proof (cases "row_fitness_expiry_date t")
      case None
      with IH [of counter] show ?thesis by simp
    next
      case (Some e)
      show ?thesis
      proof (cases "e - date_of current_time \<le> 0 \<and> row_status t \<noteq> ''OUT_OF_ORDER''")
        case True
        from IH [of "counter + 1"] obtain c where
          "emergency_decision c trainset current_time
             \<in> set (fst (evaluate_emergency_situations (counter + 1) ts current_time))" ..
        with Some True show ?thesis
          by (auto simp: Let_def split: prod.split intro!: exI [of _ c])
      next
        case False
        with Some IH [of counter] show ?thesis by (auto simp: Let_def)
      qed
    qed
  qed
qed

lemma emitted_decisions_emergency:
  "set (fst (evaluate_emergency_situations
        (snd (evaluate_maintenance_needs counter trainsets current_time)) trainsets current_time))
   \<subseteq> set (fst (emitted_decisions counter predicted trainsets current_time))"
  by (auto simp: emitted_decisions_def Let_def split: prod.split)

lemma foldl_process_decision_history:
  "decision_history (foldl process_decision st ds) = decision_history st @ ds"
  by (induction ds arbitrary: st) (simp_all add: process_decision_def)

lemma evaluate_system_state_history:
  "decision_history (evaluate_system_state predicted trainsets current_time st) =
     decision_history st
     @ fst (emitted_decisions (decision_counter st) predicted trainsets current_time)"
  by (simp add: evaluate_system_state_def Let_def foldl_process_decision_history
      split: prod.split)

text \<open>
  Claim C5. For every trainset of the fleet snapshot whose fitness-expiry date is on or
  before the evaluation day and whose status is not out-of-order, one evaluator pass
  appends to the decision history a decision made at the evaluation time with type
  emergency-response, urgency critical, confidence 1.0, no human approval required,
  affected trainsets exactly that trainset, and deadline the evaluation time plus five
  minutes.
\<close>

theorem expired_fitness_emits_emergency:
  assumes "trainset \<in> set trainsets"
    and "row_fitness_expiry_date trainset = Some expiry"
    and "expiry \<le> date_of current_time"
    and "row_status trainset \<noteq> ''OUT_OF_ORDER''"
  shows "\<exists>d \<in> set (decision_history
                   (evaluate_system_state predicted trainsets current_time st)).
           timestamp d = current_time \<and>
           decision_kind d = EMERGENCY_RESPONSE \<and> urgency d = CRITICAL \<and>
           confidence d = 1.0 \<and> requires_human_approval d = False \<and>
           affected_trainsets d = [row_trainset_id trainset] \<and>
           execution_deadline d = Some (current_time + timedelta_minutes 5)"
proof -
  from evaluate_emergency_situations_emits [OF assms] obtain c where
    "emergency_decision c trainset current_time
       \<in> set (fst (evaluate_emergency_situations
            (snd (evaluate_maintenance_needs (decision_counter st) trainsets current_time))
            trainsets current_time))"
    by blast
  with emitted_decisions_emergency have
    "emergency_decision c trainset current_time
       \<in> set (fst (emitted_decisions (decision_counter st) predicted trainsets current_time))"
    by blast
  then have "emergency_decision c trainset current_time
       \<in> set (decision_history (evaluate_system_state predicted trainsets current_time st))"
    by (simp add: evaluate_system_state_history)
  then show ?thesis
    by (rule rev_bexI) (simp add: emergency_decision_def)
qed

theorem expired_fitness_emits_emergency_witness:
  "fleet_row ''TS001'' ''AVAILABLE'' (Some (- 1)) None \<in> set expired_fitness_fleet \<and>
   row_fitness_expiry_date (fleet_row ''TS001'' ''AVAILABLE'' (Some (- 1)) None) = Some (- 1) \<and>
   (- 1 :: int) \<le> date_of 43200 \<and>
   row_status (fleet_row ''TS001'' ''AVAILABLE'' (Some (- 1)) None) \<noteq> ''OUT_OF_ORDER'' \<and>
   (\<exists>d \<in> set (decision_history
                (evaluate_system_state None expired_fitness_fleet 43200 initial_engine_state)).
      timestamp d = 43200 \<and>
      decision_kind d = EMERGENCY_RESPONSE \<and> urgency d = CRITICAL \<and>
      confidence d = 1.0 \<and> requires_human_approval d = False \<and>
      affected_trainsets d = [''TS001''] \<and>
      execution_deadline d = Some 43500)"
  using expired_fitness_emits_emergency
    [of "fleet_row ''TS001'' ''AVAILABLE'' (Some (- 1)) None" expired_fitness_fleet "- 1"
      43200 None initial_engine_state]
  by (simp add: expired_fitness_fleet_def fleet_row_def date_of_def timedelta_minutes_def)

text \<open>
  Claim C7, as stated, fails. At 22:05 with nine available trainsets the rule emits one
  cleaning decision that affects two trainsets, not \<open>\<lceil>9/4\<rceil> = 3\<close>; and they are the
  first two of the snapshot, TS001 and TS002, which were cleaned most recently.
\<close>

theorem cleaning_rotation_counterexample:
  "map affected_trainsets (fst (evaluate_resource_allocation 0 cleaning_fleet 79500))
     = [[''TS001'', ''TS002'']] \<and>
   length (filter (\<lambda>ts. row_status ts = ''AVAILABLE'') cleaning_fleet) = 9 \<and>
   \<lceil>(9 :: real) / 4\<rceil> = 3"
  by code_simp

text \<open>
  Claim C7, amended. When the evaluator runs at local hour 22 with minute below 10 and at
  least 6 trainsets are available, the resource-allocation rule emits exactly one
  decision, of type cleaning-schedule with urgency medium and deadline the evaluation
  time plus 30 minutes; it affects exactly \<open>max(2, \<lfloor>available/4\<rfloor>)\<close> trainsets, each of
  them an available trainset of the snapshot.
\<close>

theorem cleaning_rotation_decision:
  assumes "hour_of current_time = 22"
    and "minute_of current_time < 10"
    and "6 \<le> length (filter (\<lambda>ts. row_status ts = ''AVAILABLE'') trainsets)"
  shows "\<exists>d. fst (evaluate_resource_allocation counter trainsets current_time) = [d] \<and>
           decision_kind d = CLEANING_SCHEDULE \<and> urgency d = MEDIUM \<and>
           execution_deadline d = Some (current_time + timedelta_minutes 30) \<and>
           length (affected_trainsets d) =
             max 2 (length (filter (\<lambda>ts. row_status ts = ''AVAILABLE'') trainsets) div 4) \<and>
           set (affected_trainsets d) \<subseteq>
             row_trainset_id ` set (filter (\<lambda>ts. row_status ts = ''AVAILABLE'') trainsets)"
proof -
  let ?avail = "filter (\<lambda>ts. row_status ts = ''AVAILABLE'') trainsets"
  have "max 2 (length ?avail div 4) \<le> length ?avail"
    using assms(3) by simp
  moreover have "set (take n ?avail) \<subseteq> set ?avail" for n
    by (rule set_take_subset)
  ultimately show ?thesis
    using assms by (auto simp: evaluate_resource_allocation_def Let_def min_def)
qed

theorem cleaning_rotation_decision_witness:
  "hour_of 79500 = 22 \<and> minute_of 79500 < 10 \<and>
   length (filter (\<lambda>ts. row_status ts = ''AVAILABLE'') cleaning_fleet) = 9 \<and>
   (\<exists>d. fst (evaluate_resource_allocation 0 cleaning_fleet 79500) = [d] \<and>
      decision_kind d = CLEANING_SCHEDULE \<and> urgency d = MEDIUM \<and>
      execution_deadline d = Some 81300 \<and>
      length (affected_trainsets d) = 2)"
proof -
  have n: "length (filter (\<lambda>ts. row_status ts = ''AVAILABLE'') cleaning_fleet) = 9"
    by code_simp
  have h: "hour_of 79500 = 22" and m: "minute_of 79500 < 10"
    by (simp_all add: hour_of_def minute_of_def)
  from cleaning_rotation_decision [of 79500 cleaning_fleet 0, OF h m] n h m
  show ?thesis by (auto simp: timedelta_minutes_def)
qed

section \<open>Properties of the decision engine's executor\<close>

lemma expired_not_ready:
  "execution_deadline decision = Some deadline \<Longrightarrow> deadline < current_time \<Longrightarrow>
   \<not> is_decision_ready_for_execution decision current_time"
  by (simp add: is_decision_ready_for_execution_def)

lemma execute_items_keeps:
  assumes "(did, decision) \<in> set (active_decisions st)"
    and "\<And>k d. (k, d) \<in> set items \<Longrightarrow> k = did \<Longrightarrow>
           \<not> is_decision_ready_for_execution d current_time"
  shows "(did, decision) \<in> set (active_decisions (execute_items run current_time items st))"
  using assms
proof (induction items arbitrary: st)
  case Nil
  then show ?case by simp
next
  case (Cons item items)
  obtain k d where item: "item = (k, d)" by (cases item)
  let ?st' = "if is_decision_ready_for_execution d current_time then
          (case run d of
             Returned success \<Rightarrow>
               st\<lparr>recorded_outcomes := recorded_outcomes st @ [(decision_id d, success)],
                  active_decisions := AList.delete k (active_decisions st)\<rparr>
           | Raised \<Rightarrow>
               st\<lparr>recorded_outcomes := recorded_outcomes st @ [(decision_id d, False)]\<rparr>)
        else st"
  have "is_decision_ready_for_execution d current_time \<Longrightarrow> k \<noteq> did"
    using Cons.prems(2) [of k d] item by auto
  with Cons.prems(1) have "(did, decision) \<in> set (active_decisions ?st')"
    by (auto simp: AList.delete_eq split: execution_result.split)
  moreover have "\<And>k' d'. (k', d') \<in> set items \<Longrightarrow> k' = did \<Longrightarrow>
           \<not> is_decision_ready_for_execution d' current_time"
    using Cons.prems(2) by simp
  ultimately have
    "(did, decision) \<in> set (active_decisions (execute_items run current_time items ?st'))"
    by (rule Cons.IH)
  with item show ?case by simp
qed

lemma execute_items_never_runs:
  assumes "\<not> is_decision_ready_for_execution decision current_time"
  shows "execute_items (run(decision := r)) current_time items st =
         execute_items run current_time items st"
proof (induction items arbitrary: st)
  case Nil
  then show ?case by simp
next
  case (Cons item items)
  obtain k d where item: "item = (k, d)" by (cases item)
  have "is_decision_ready_for_execution d current_time \<Longrightarrow> (run(decision := r)) d = run d"
    using assms by auto
  with item Cons.IH show ?case by simp
qed

text \<open>
  Claim C6, as stated, fails in its second half: the executor never removes a decision
  that it does not execute. The decision of 12:00 with deadline 12:05 is still the one
  active decision after an executor pass at 12:10, and no outcome was recorded.
\<close>

theorem expired_decision_remains_counterexample:
  "execution_deadline stale_decision = Some 43500 \<and>
   active_decisions
     (execute_pending_decisions (\<lambda>d. Returned True) 43800 stale_engine_state)
     = [(decision_id stale_decision, stale_decision)] \<and>
   recorded_outcomes
     (execute_pending_decisions (\<lambda>d. Returned True) 43800 stale_engine_state) = []"
  by (simp add: execute_pending_decisions_def stale_engine_state_def stale_decision_def
      emergency_decision_def is_decision_ready_for_execution_def timedelta_minutes_def)

text \<open>
  Claim C6, amended. An active decision whose execution deadline has passed is never
  executed by an executor pass (whatever executing it would have returned, the pass ends
  in the same state), and the pass leaves it in the active-decisions dict.
\<close>

theorem expired_decision_not_executed:
  assumes "distinct (map fst (active_decisions st))"
    and "(did, decision) \<in> set (active_decisions st)"
    and "execution_deadline decision = Some deadline"
    and "deadline < current_time"
  shows "execute_pending_decisions (run(decision := r)) current_time st =
           execute_pending_decisions run current_time st \<and>
         (did, decision) \<in> set (active_decisions (execute_pending_decisions run current_time st))"
proof -
  have nr: "\<not> is_decision_ready_for_execution decision current_time"
    using assms(3,4) by (rule expired_not_ready)
  have "\<And>k d. (k, d) \<in> set (active_decisions st) \<Longrightarrow> k = did \<Longrightarrow>
          \<not> is_decision_ready_for_execution d current_time"
  proof -
    fix k d
    assume "(k, d) \<in> set (active_decisions st)" and "k = did"
    with assms(1,2) have "d = decision"
      by (metis eq_key_imp_eq_value)
    with nr show "\<not> is_decision_ready_for_execution d current_time" by simp
  qed
  with assms(2) have
    "(did, decision) \<in> set (active_decisions (execute_pending_decisions run current_time st))"
    unfolding execute_pending_decisions_def by (rule execute_items_keeps)
  moreover have "execute_pending_decisions (run(decision := r)) current_time st =
           execute_pending_decisions run current_time st"
    unfolding execute_pending_decisions_def using nr by (rule execute_items_never_runs)
  ultimately show ?thesis by simp
qed

theorem expired_decision_not_executed_witness:
  "distinct (map fst (active_decisions stale_engine_state)) \<and>
   (decision_id stale_decision, stale_decision) \<in> set (active_decisions stale_engine_state) \<and>
   execution_deadline stale_decision = Some 43500 \<and> (43500 :: int) < 43800 \<and>
   execute_pending_decisions ((\<lambda>d. Returned True)(stale_decision := Raised)) 43800
       stale_engine_state =
     execute_pending_decisions (\<lambda>d. Returned True) 43800 stale_engine_state \<and>
   (decision_id stale_decision, stale_decision)
     \<in> set (active_decisions
         (execute_pending_decisions (\<lambda>d. Returned True) 43800 stale_engine_state))"
proof -
  have a: "distinct (map fst (active_decisions stale_engine_state))"
    and b: "(decision_id stale_decision, stale_decision)
              \<in> set (active_decisions stale_engine_state)"
    by (simp_all add: stale_engine_state_def)
  have c: "execution_deadline stale_decision = Some 43500"
    by (simp add: stale_decision_def emergency_decision_def timedelta_minutes_def)
  have d: "(43500 :: int) < 43800" by simp
  from expired_decision_not_executed [OF a b c d, of "\<lambda>d. Returned True" Raised] a b c d
  show ?thesis by simp
qed

section \<open>Properties of the adaptive thresholds\<close>

lemma initial_thresholds_in_bounds: "thresholds_in_bounds initial_thresholds"
  by (simp add: thresholds_in_bounds_def initial_thresholds_def)

lemma optimize_scheduling_parameters_in_bounds:
  "thresholds_in_bounds st \<Longrightarrow> thresholds_in_bounds (optimize_scheduling_parameters h st)"
  by (simp add: thresholds_in_bounds_def optimize_scheduling_parameters_def Let_def
      max_def min_def)

lemma adaptive_ticks_in_bounds:
  "thresholds_in_bounds st \<Longrightarrow> thresholds_in_bounds (adaptive_ticks st hs)"
proof (induction hs arbitrary: st)
  case Nil
  then show ?case by simp
next
  case (Cons h hs)
  from Cons.prems have "thresholds_in_bounds (optimize_scheduling_parameters h st)"
    by (rule optimize_scheduling_parameters_in_bounds)
  then have "thresholds_in_bounds (adaptive_ticks (optimize_scheduling_parameters h st) hs)"
    by (rule Cons.IH)
  then show ?case by simp
qed

text \<open>
  Claim C9. Starting from the thresholds 0.75 and 0.85 of \<^verbatim>\<open>__init__\<close>, after any
  sequence of adaptive-learning ticks, whatever the performance history each tick reads,
  the confidence threshold lies in [0.70, 0.85] and the auto-execution threshold in
  [0.80, 0.95].
\<close>

theorem adaptive_thresholds_bounded:
  "0.70 \<le> confidence_threshold (adaptive_ticks initial_thresholds hs) \<and>
   confidence_threshold (adaptive_ticks initial_thresholds hs) \<le> 0.85 \<and>
   0.80 \<le> auto_execution_threshold (adaptive_ticks initial_thresholds hs) \<and>
   auto_execution_threshold (adaptive_ticks initial_thresholds hs) \<le> 0.95"
  using adaptive_ticks_in_bounds [OF initial_thresholds_in_bounds, of hs]
  by (simp add: thresholds_in_bounds_def)


end
